theory Spec2Isabelle
  imports Main "HOL-Library.Word" "HOL-Library.Multiset"
begin

unbundle bit_operations_syntax

section \<open>Bytes, strings and errors\<close>

text \<open>
  A Go \<^verbatim>\<open>string\<close> is a sequence of bytes and \<^verbatim>\<open>[]byte(s)\<close> is the same sequence, so
  both are lists of \<^typ>\<open>char\<close> (the 256 byte values).  Go's \<^verbatim>\<open>int\<close> is a 64-bit two's
  complement integer: \<open>+\<close> and \<open>-\<close> wrap around, comparisons are signed.
\<close>

type_synonym byte = char
type_synonym go_int = "64 word"
type_synonym time = int

text \<open>
  One type for every error value the two packages create or pass on.  \<open>errs_New\<close> is
  \<^verbatim>\<open>errs.New\<close> with its message and \<open>auth_Invalid\<close> an error of the class \<^verbatim>\<open>auth.Invalid\<close>
  with its message; \<open>OtherError\<close> stands for any other error of the storage network;
  \<open>Wrapped\<close> is an error whose \<^verbatim>\<open>Unwrap\<close> gives the inner error; \<open>combinedError\<close> is the
  group that \<^verbatim>\<open>errs.Combine\<close> builds from two errors, whose \<^verbatim>\<open>Unwrap\<close> gives the first.
\<close>

datatype error =
    InvalidByteError byte
  | ErrLength
  | errs_New string
  | auth_Invalid string
  | ErrStreamIDInvalid
  | OtherError string
  | Wrapped string error
  | combinedError error error
  | InvalidUploadID string string string
  | BucketNameInvalid
  | UnsupportedDelimiter string

section \<open>The Go library functions used by the ETag composer\<close>

subsection \<open>\<^verbatim>\<open>strings.Trim\<close>, \<^verbatim>\<open>strings.IndexByte\<close>, \<^verbatim>\<open>strconv.Itoa\<close>\<close>

text \<open>\<^verbatim>\<open>strings.Trim(s, cutset)\<close> for a cutset of ASCII bytes: all leading and trailing
  bytes of the cutset are removed.\<close>

definition strings_Trim :: "string \<Rightarrow> string \<Rightarrow> string" where
  "strings_Trim s cutset =
     rev (dropWhile (\<lambda>c. c \<in> set cutset) (rev (dropWhile (\<lambda>c. c \<in> set cutset) s)))"

text \<open>\<^verbatim>\<open>strings.IndexByte(s, c)\<close>: the index of the first \<open>c\<close> in \<open>s\<close>, or \<open>-1\<close>.\<close>

fun strings_IndexByte :: "string \<Rightarrow> byte \<Rightarrow> int" where
  "strings_IndexByte [] c = - 1"
| "strings_IndexByte (x # xs) c =
     (if x = c then 0
      else (let r = strings_IndexByte xs c in if r < 0 then - 1 else r + 1))"

fun decimal :: "nat \<Rightarrow> string" where
  "decimal n =
     (if n < 10 then [''0123456789'' ! n]
      else decimal (n div 10) @ [''0123456789'' ! (n mod 10)])"

declare decimal.simps [simp del]

text \<open>\<^verbatim>\<open>strconv.Itoa\<close>, on the mathematical value of the integer.\<close>

definition strconv_Itoa :: "int \<Rightarrow> string" where
  "strconv_Itoa i = (if i < 0 then CHR ''-'' # decimal (nat (- i)) else decimal (nat i))"

subsection \<open>\<^verbatim>\<open>encoding/hex\<close>\<close>

text \<open>The table \<^verbatim>\<open>reverseHexTable\<close>: the value of a hexadecimal digit of either case,
  \<open>0xff\<close> for every other byte.\<close>

definition reverseHexTable :: "byte \<Rightarrow> nat" where
  "reverseHexTable c =
     (let n = of_char c :: nat in
      if 48 \<le> n \<and> n \<le> 57 then n - 48
      else if 97 \<le> n \<and> n \<le> 102 then n - 87
      else if 65 \<le> n \<and> n \<le> 70 then n - 55
      else 255)"

text \<open>\<^verbatim>\<open>hex.Decode\<close>: two digits make one byte; the first byte that is no digit, or an odd
  length, is an error, returned with the bytes decoded before it.\<close>

fun hex_Decode :: "byte list \<Rightarrow> byte list \<times> error option" where
  "hex_Decode (p # q # src) =
     (let a = reverseHexTable p; b = reverseHexTable q in
      if a > 15 then ([], Some (InvalidByteError p))
      else if b > 15 then ([], Some (InvalidByteError q))
      else (case hex_Decode src of (dst, err) \<Rightarrow> (char_of (push_bit 4 a OR b) # dst, err)))"
| "hex_Decode [p] =
     (if reverseHexTable p > 15 then ([], Some (InvalidByteError p)) else ([], Some ErrLength))"
| "hex_Decode [] = ([], None)"

definition hex_DecodeString :: "string \<Rightarrow> byte list \<times> error option" where
  "hex_DecodeString s = hex_Decode s"

definition hextable :: string where
  "hextable = ''0123456789abcdef''"

fun hex_EncodeToString :: "byte list \<Rightarrow> string" where
  "hex_EncodeToString [] = []"
| "hex_EncodeToString (v # src) =
     hextable ! (drop_bit 4 (of_char v :: nat)) # hextable ! ((of_char v :: nat) AND 15)
       # hex_EncodeToString src"

subsection \<open>\<^verbatim>\<open>crypto/md5\<close>\<close>

text \<open>\<^verbatim>\<open>md5.Sum\<close> is the MD5 digest of RFC 1321: the message is padded with \<open>0x80\<close>, zeros
  and its length in bits (64 bits, little-endian) to a multiple of 64 bytes, and every block
  of sixteen little-endian 32-bit words goes through 64 steps.\<close>

definition md5_K :: "32 word list" where
  "md5_K = [
    0xd76aa478, 0xe8c7b756, 0x242070db, 0xc1bdceee,
    0xf57c0faf, 0x4787c62a, 0xa8304613, 0xfd469501,
    0x698098d8, 0x8b44f7af, 0xffff5bb1, 0x895cd7be,
    0x6b901122, 0xfd987193, 0xa679438e, 0x49b40821,
    0xf61e2562, 0xc040b340, 0x265e5a51, 0xe9b6c7aa,
    0xd62f105d, 0x02441453, 0xd8a1e681, 0xe7d3fbc8,
    0x21e1cde6, 0xc33707d6, 0xf4d50d87, 0x455a14ed,
    0xa9e3e905, 0xfcefa3f8, 0x676f02d9, 0x8d2a4c8a,
    0xfffa3942, 0x8771f681, 0x6d9d6122, 0xfde5380c,
    0xa4beea44, 0x4bdecfa9, 0xf6bb4b60, 0xbebfbc70,
    0x289b7ec6, 0xeaa127fa, 0xd4ef3085, 0x04881d05,
    0xd9d4d039, 0xe6db99e5, 0x1fa27cf8, 0xc4ac5665,
    0xf4292244, 0x432aff97, 0xab9423a7, 0xfc93a039,
    0x655b59c3, 0x8f0ccc92, 0xffeff47d, 0x85845dd1,
    0x6fa87e4f, 0xfe2ce6e0, 0xa3014314, 0x4e0811a1,
    0xf7537e82, 0xbd3af235, 0x2ad7d2bb, 0xeb86d391]"

definition md5_s :: "nat list" where
  "md5_s = [7, 12, 17, 22, 7, 12, 17, 22, 7, 12, 17, 22, 7, 12, 17, 22,
            5, 9, 14, 20, 5, 9, 14, 20, 5, 9, 14, 20, 5, 9, 14, 20,
            4, 11, 16, 23, 4, 11, 16, 23, 4, 11, 16, 23, 4, 11, 16, 23,
            6, 10, 15, 21, 6, 10, 15, 21, 6, 10, 15, 21, 6, 10, 15, 21]"

type_synonym md5_state = "32 word \<times> 32 word \<times> 32 word \<times> 32 word"

definition md5_FG :: "nat \<Rightarrow> 32 word \<Rightarrow> 32 word \<Rightarrow> 32 word \<Rightarrow> 32 word \<times> nat" where
  "md5_FG i b c d =
     (if i < 16 then ((b AND c) OR (NOT b AND d), i)
      else if i < 32 then ((d AND b) OR (NOT d AND c), (5 * i + 1) mod 16)
      else if i < 48 then (b XOR c XOR d, (3 * i + 5) mod 16)
      else (c XOR (b OR NOT d), (7 * i) mod 16))"

definition md5_round :: "32 word list \<Rightarrow> nat \<Rightarrow> md5_state \<Rightarrow> md5_state" where
  "md5_round M i st =
     (case st of (a, b, c, d) \<Rightarrow>
        (case md5_FG i b c d of (f, g) \<Rightarrow>
           (d, b + word_rotl (md5_s ! i) (f + a + md5_K ! i + M ! g), b, c)))"

definition md5_block :: "32 word list \<Rightarrow> md5_state \<Rightarrow> md5_state" where
  "md5_block M st =
     (case st of (a0, b0, c0, d0) \<Rightarrow>
        (case fold (md5_round M) [0..<64] st of (a, b, c, d) \<Rightarrow>
           (a0 + a, b0 + b, c0 + c, d0 + d)))"

fun le_word32 :: "byte list \<Rightarrow> 32 word" where
  "le_word32 [] = 0"
| "le_word32 (x # xs) = of_char x + 256 * le_word32 xs"

fun le_bytes :: "nat \<Rightarrow> 'a::len word \<Rightarrow> byte list" where
  "le_bytes 0 v = []"
| "le_bytes (Suc n) v = char_of (uint v) # le_bytes n (drop_bit 8 v)"

fun chunks :: "nat \<Rightarrow> nat \<Rightarrow> 'a list \<Rightarrow> 'a list list" where
  "chunks 0 k xs = []"
| "chunks (Suc n) k xs = take k xs # chunks n k (drop k xs)"

definition md5_pad :: "byte list \<Rightarrow> byte list" where
  "md5_pad msg =
     msg @ [char_of (128 :: nat)]
       @ replicate ((119 - length msg mod 64) mod 64) (char_of (0 :: nat))
       @ le_bytes 8 (8 * of_nat (length msg) :: 64 word)"

definition md5_Sum :: "byte list \<Rightarrow> byte list" where
  "md5_Sum msg =
     (let p = md5_pad msg;
          blocks = map (\<lambda>blk. map le_word32 (chunks 16 4 blk)) (chunks (length p div 64) 64 p)
      in case fold md5_block blocks (0x67452301, 0xefcdab89, 0x98badcfe, 0x10325476) of
           (a, b, c, d) \<Rightarrow> concat (map (le_bytes 4) [a, b, c, d]))"

section \<open>The ETag composer (miniogw/multipart.go)\<close>

record CompletePart =
  PartNumber :: go_int
  ETag :: string

definition canonicalEtag :: "string \<Rightarrow> string" where
  "canonicalEtag etag0 =
     (let etag = strings_Trim etag0 [CHR 0x22];
          p = strings_IndexByte etag (CHR ''-'')
      in if p \<ge> 0 then take (nat p) etag else etag)"

text \<open>The loop of \<^verbatim>\<open>multipartUploadETag\<close>; \<open>hashes\<close> is the slice it appends to.\<close>

fun multipartUploadETag_loop :: "CompletePart list \<Rightarrow> byte list \<Rightarrow> byte list" where
  "multipartUploadETag_loop [] hashes = hashes"
| "multipartUploadETag_loop (part # parts) hashes =
     (case hex_DecodeString (canonicalEtag (CompletePart.ETag part)) of
        (md5, Some err) \<Rightarrow> multipartUploadETag_loop parts (hashes @ CompletePart.ETag part)
      | (md5, None) \<Rightarrow> multipartUploadETag_loop parts (hashes @ md5))"

definition multipartUploadETag :: "CompletePart list \<Rightarrow> string \<times> error option" where
  "multipartUploadETag parts =
     (let hashes = multipartUploadETag_loop parts [];
          sum = md5_Sum hashes
      in (hex_EncodeToString sum @ ''-'' @ strconv_Itoa (int (length parts)), None))"

subsection \<open>The aggregate ETag as the specification words it\<close>

definition is_hex_digit :: "char \<Rightarrow> bool" where
  "is_hex_digit c = (c \<in> set ''0123456789abcdefABCDEF'')"

definition is_hex_string :: "string \<Rightarrow> bool" where
  "is_hex_string s = (even (length s) \<and> list_all is_hex_digit s)"

definition hex_digit_value :: "char \<Rightarrow> nat" where
  "hex_digit_value c =
     (case map_of (zip ''0123456789abcdefABCDEF''
                     [0, 1, 2, 3, 4, 5, 6, 7, 8, 9, 10, 11, 12, 13, 14, 15, 10, 11, 12, 13, 14, 15]) c of
        Some v \<Rightarrow> v
      | None \<Rightarrow> 0)"

fun hex_string_bytes :: "string \<Rightarrow> byte list" where
  "hex_string_bytes (h # l # s) = char_of (16 * hex_digit_value h + hex_digit_value l) # hex_string_bytes s"
| "hex_string_bytes s = []"

definition trim_quotes :: "string \<Rightarrow> string" where
  "trim_quotes s = strings_Trim s [CHR 0x22]"

text \<open>A trailing \<open>-<count>\<close> suffix: a hyphen followed by one or more decimal digits, at the
  end of the string.\<close>

definition strip_count_suffix :: "string \<Rightarrow> string" where
  "strip_count_suffix s =
     (let ds = takeWhile (\<lambda>c. c \<in> set ''0123456789'') (rev s);
          r = drop (length ds) (rev s)
      in if ds \<noteq> [] \<and> r \<noteq> [] \<and> hd r = CHR ''-'' then rev (tl r) else s)"

text \<open>Everything before the first hyphen.\<close>

definition cut_at_hyphen :: "string \<Rightarrow> string" where
  "cut_at_hyphen s = takeWhile (\<lambda>c. c \<noteq> CHR ''-'') s"

definition contribution :: "(string \<Rightarrow> string) \<Rightarrow> string \<Rightarrow> byte list" where
  "contribution strip etag =
     (let r = strip (trim_quotes etag) in if is_hex_string r then hex_string_bytes r else etag)"

definition aggregate :: "(string \<Rightarrow> string) \<Rightarrow> string list \<Rightarrow> string" where
  "aggregate strip etags =
     hex_EncodeToString (md5_Sum (concat (map (contribution strip) etags)))
       @ ''-'' @ decimal (length etags)"

text \<open>The specification's \<open>ComputeAggregateETag\<close>, with the \<open>-<count>\<close> suffix stripped.\<close>

definition spec_ComputeAggregateETag :: "string list \<Rightarrow> string" where
  "spec_ComputeAggregateETag etags = aggregate strip_count_suffix etags"

section \<open>The in-memory credential store (auth/memauth/memauth.go)\<close>

text \<open>\<^verbatim>\<open>auth.KeyHash\<close> is an array of 32 bytes, compared as a whole.\<close>

type_synonym KeyHash = "256 word"

record Record =
  SatelliteAddress :: string
  MacaroonHead :: "byte list"
  EncryptedSecretKey :: "byte list"
  EncryptedAccessGrant :: "byte list"

text \<open>The two maps of the store.  The values of \<open>entries\<close> are pointers, so a key may be
  present with the nil pointer (\<open>Some None\<close>).  Every operation holds the mutex from its
  first to its last step, so each is one atomic step on this state.\<close>

record KV =
  entries :: "KeyHash \<rightharpoonup> Record option"
  invalid :: "KeyHash \<rightharpoonup> string"

definition New :: KV where
  "New = \<lparr>entries = Map.empty, invalid = Map.empty\<rparr>"

definition Put :: "KV \<Rightarrow> KeyHash \<Rightarrow> Record option \<Rightarrow> KV \<times> error option" where
  "Put d keyHash record =
     (case entries d keyHash of
        Some _ \<Rightarrow> (d, Some (errs_New ''record already exists''))
      | None \<Rightarrow> (d\<lparr>entries := (entries d)(keyHash \<mapsto> record)\<rparr>, None))"

definition Get :: "KV \<Rightarrow> KeyHash \<Rightarrow> Record option \<times> error option" where
  "Get d keyHash =
     (case invalid d keyHash of
        Some reason \<Rightarrow> (None, Some (auth_Invalid reason))
      | None \<Rightarrow> (case entries d keyHash of Some record \<Rightarrow> (record, None) | None \<Rightarrow> (None, None)))"

definition Delete :: "KV \<Rightarrow> KeyHash \<Rightarrow> KV \<times> error option" where
  "Delete d keyHash =
     (d\<lparr>entries := (entries d)(keyHash := None), invalid := (invalid d)(keyHash := None)\<rparr>, None)"

definition Invalidate :: "KV \<Rightarrow> KeyHash \<Rightarrow> string \<Rightarrow> KV \<times> error option" where
  "Invalidate d keyHash reason =
     (case invalid d keyHash of
        None \<Rightarrow> (d\<lparr>invalid := (invalid d)(keyHash \<mapsto> reason)\<rparr>, None)
      | Some _ \<Rightarrow> (d, None))"

definition Ping :: "KV \<Rightarrow> error option" where
  "Ping d = None"

section \<open>The multipart upload adapter (miniogw/multipart.go)\<close>

subsection \<open>Errors\<close>

text \<open>\<^verbatim>\<open>errors.Is\<close>: the error itself or one reached from it by \<^verbatim>\<open>Unwrap\<close> equals the target.\<close>

fun errors_Is :: "error \<Rightarrow> error \<Rightarrow> bool" where
  "errors_Is (Wrapped msg err) target = (Wrapped msg err = target \<or> errors_Is err target)"
| "errors_Is (combinedError err1 err2) target =
     (combinedError err1 err2 = target \<or> errors_Is err1 target)"
| "errors_Is err target = (err = target)"

text \<open>\<^verbatim>\<open>errs.Combine\<close> of two errors: nil errors are dropped, a single error is returned as
  it is, two errors make a group.\<close>

definition errs_Combine :: "error option \<Rightarrow> error option \<Rightarrow> error option" where
  "errs_Combine err1 err2 =
     (case err1 of
        None \<Rightarrow> err2
      | Some e1 \<Rightarrow> (case err2 of None \<Rightarrow> Some e1 | Some e2 \<Rightarrow> Some (combinedError e1 e2)))"

text \<open>A call has failed with the error \<open>target\<close> when the error it returns is \<open>target\<close> in
  the sense of \<^verbatim>\<open>errors.Is\<close>.\<close>

definition fails_with :: "error option \<Rightarrow> error \<Rightarrow> bool" where
  "fails_with err target = (case err of None \<Rightarrow> False | Some e \<Rightarrow> errors_Is e target)"

subsection \<open>Data of the protocol layer and of the storage network\<close>

record ObjectOptions =
  UserDefined :: "string \<rightharpoonup> string"

record MultipartInfo =
  Bucket :: string
  Object :: string
  Initiated :: time
  UploadID :: string
  UserDefined :: "string \<rightharpoonup> string"

record PartInfo =
  PartNumber :: go_int
  LastModified :: time
  ETag :: string
  Size :: "64 word"
  ActualSize :: "64 word"

record ListPartsInfo =
  Bucket :: string
  Object :: string
  UploadID :: string
  StorageClass :: string
  PartNumberMarker :: go_int
  NextPartNumberMarker :: go_int
  MaxParts :: go_int
  IsTruncated :: bool
  Parts :: "PartInfo list"

record ListMultipartsInfo =
  KeyMarker :: string
  UploadIDMarker :: string
  NextKeyMarker :: string
  MaxUploads :: go_int
  IsTruncated :: bool
  Uploads :: "MultipartInfo list"
  Prefix :: string
  Delimiter :: string
  CommonPrefixes :: "string list"

record ObjectInfo =
  Bucket :: string
  Name :: string
  ETag :: string

text \<open>What the storage network's stream API (package \<^verbatim>\<open>multipart\<close> of the uplink library)
  takes and returns.\<close>

record multipart_Object =
  Key :: string
  IsPrefix :: bool
  StreamID :: string
  Created :: time
  Custom :: "string \<rightharpoonup> string"

record uplink_Object =
  Key :: string
  Created :: time
  ContentLength :: "64 word"
  Custom :: "string \<rightharpoonup> string"

record multipart_PartInfo =
  PartNumber :: go_int
  Size :: "64 word"
  LastModified :: time

record multipart_PartsList =
  Items :: "multipart_PartInfo list"
  More :: bool

record ListMultipartUploadsOptions =
  Prefix :: string
  Cursor :: string
  Recursive :: bool
  System :: bool
  Custom :: bool

text \<open>An upload iterator: the items the network will still deliver, the error (if any) it
  reports once they are used up, the current item and the error state.\<close>

record UploadIterator =
  iter_pending :: "multipart_Object list"
  iter_failure :: "error option"
  iter_item :: "multipart_Object option"
  iter_err :: "error option"

definition Next :: "UploadIterator \<Rightarrow> bool \<times> UploadIterator" where
  "Next list =
     (case iter_err list of
        Some e \<Rightarrow> (False, list)
      | None \<Rightarrow>
          (case iter_pending list of
             [] \<Rightarrow> (False, list\<lparr>iter_item := None, iter_err := iter_failure list\<rparr>)
           | x # xs \<Rightarrow> (True, list\<lparr>iter_pending := xs, iter_item := Some x\<rparr>)))"

definition Item :: "UploadIterator \<Rightarrow> multipart_Object option" where
  "Item list = iter_item list"

definition Err :: "UploadIterator \<Rightarrow> error option" where
  "Err list = iter_err list"

text \<open>The reader of a part (\<^verbatim>\<open>*minio.PutObjReader\<close>): the bytes of the part as the client
  supplied them.\<close>

record PutObjReader =
  reader_bytes :: "byte list"

text \<open>Modelled from the spec: \<^verbatim>\<open>MD5CurrentHexString\<close> is a method of the part reader, which is
  not defined in the sources of the adapter.  The ETag of a part is "computed from the
  client-supplied content (content hash over the part bytes)": the hex encoding of the MD5
  digest of the bytes of the reader.\<close>

definition MD5CurrentHexString :: "PutObjReader \<Rightarrow> string" where
  "MD5CurrentHexString data = hex_EncodeToString (md5_Sum (reader_bytes data))"

text \<open>Everything the adapter calls outside this file.  \<open>openProjectMultipart\<close> and
  \<open>project_Close\<close> are the outcomes of opening and closing the project (\<open>None\<close> is
  success); the functions of package \<^verbatim>\<open>multipart\<close> answer a call with an error or a
  value; \<open>convertError\<close> and \<open>checkBucketError\<close> are the gateway's error translators,
  defined in another file of the package.\<close>

record gatewayLayer =
  openProjectMultipart :: "error option"
  project_Close :: "error option"
  multipart_PutObjectPart ::
    "string \<Rightarrow> string \<Rightarrow> string \<Rightarrow> go_int \<Rightarrow> PutObjReader \<Rightarrow> error + multipart_PartInfo"
  multipart_CompleteMultipartUpload ::
    "string \<Rightarrow> string \<Rightarrow> string \<Rightarrow> (string \<rightharpoonup> string) \<Rightarrow> error + uplink_Object"
  multipart_ListObjectParts ::
    "string \<Rightarrow> string \<Rightarrow> string \<Rightarrow> go_int \<Rightarrow> go_int \<Rightarrow> error + multipart_PartsList"
  multipart_ListPendingObjectStreams ::
    "string \<Rightarrow> string \<Rightarrow> ListMultipartUploadsOptions \<Rightarrow> UploadIterator"
  multipart_ListMultipartUploads :: "string \<Rightarrow> ListMultipartUploadsOptions \<Rightarrow> UploadIterator"
  convertError :: "error \<Rightarrow> string \<Rightarrow> string \<Rightarrow> error"
  checkBucketError :: "string \<Rightarrow> string \<Rightarrow> error option \<Rightarrow> error option"

text \<open>The calls into the stream API that an operation has made, in order, with their
  arguments.\<close>

datatype call =
    PutObjectPart_call string string string go_int PutObjReader
  | CompleteMultipartUpload_call string string string "string \<rightharpoonup> string"
  | ListObjectParts_call string string string go_int go_int
  | ListPendingObjectStreams_call string string ListMultipartUploadsOptions
  | ListMultipartUploads_call string ListMultipartUploadsOptions
  | Next_call
  | checkBucketError_call string string "error option"

subsection \<open>The operations\<close>

text \<open>Every operation returns its value, its error (\<open>None\<close> is nil) and the calls it has
  made.  The deferred function that closes the project runs on every return after the
  project has been opened and combines the error of closing with the error returned.\<close>

definition convertMultipartError :: "gatewayLayer \<Rightarrow> error \<Rightarrow> string \<Rightarrow> string \<Rightarrow> string \<Rightarrow> error" where
  "convertMultipartError layer err bucket object uploadID =
     (if errors_Is err ErrStreamIDInvalid then InvalidUploadID bucket object uploadID
      else convertError layer err bucket object)"

definition MultipartInfo_zero :: MultipartInfo where
  "MultipartInfo_zero =
     \<lparr>MultipartInfo.Bucket = [], MultipartInfo.Object = [], MultipartInfo.Initiated = 0,
      MultipartInfo.UploadID = [], MultipartInfo.UserDefined = Map.empty\<rparr>"

definition GetMultipartInfo ::
  "gatewayLayer \<Rightarrow> string \<Rightarrow> string \<Rightarrow> string \<Rightarrow> ObjectOptions
     \<Rightarrow> MultipartInfo \<times> error option \<times> call list" where
  "GetMultipartInfo layer bucket object uploadID opts =
     (MultipartInfo_zero\<lparr>MultipartInfo.Bucket := bucket, MultipartInfo.Object := object,
        MultipartInfo.UploadID := uploadID\<rparr>, None, [])"

definition PartInfo_zero :: PartInfo where
  "PartInfo_zero =
     \<lparr>PartInfo.PartNumber = 0, PartInfo.LastModified = 0, PartInfo.ETag = [],
      PartInfo.Size = 0, PartInfo.ActualSize = 0\<rparr>"

definition PutObjectPart ::
  "gatewayLayer \<Rightarrow> string \<Rightarrow> string \<Rightarrow> string \<Rightarrow> go_int \<Rightarrow> PutObjReader \<Rightarrow> ObjectOptions
     \<Rightarrow> PartInfo \<times> error option \<times> call list" where
  "PutObjectPart layer bucket object uploadID partID data opts =
     (case openProjectMultipart layer of
        Some err \<Rightarrow> (PartInfo_zero, Some err, [])
      | None \<Rightarrow>
          (case multipart_PutObjectPart layer bucket object uploadID (partID - 1) data of
             Inl err \<Rightarrow>
               (PartInfo_zero,
                errs_Combine (Some (convertMultipartError layer err bucket object uploadID))
                  (project_Close layer),
                [PutObjectPart_call bucket object uploadID (partID - 1) data])
           | Inr partInfo \<Rightarrow>
               (PartInfo_zero\<lparr>PartInfo.PartNumber := partID,
                  PartInfo.Size := multipart_PartInfo.Size partInfo,
                  PartInfo.ETag := MD5CurrentHexString data\<rparr>,
                errs_Combine None (project_Close layer),
                [PutObjectPart_call bucket object uploadID (partID - 1) data])))"

definition ObjectInfo_zero :: ObjectInfo where
  "ObjectInfo_zero = \<lparr>ObjectInfo.Bucket = [], ObjectInfo.Name = [], ObjectInfo.ETag = []\<rparr>"

text \<open>Modelled from the spec: \<^verbatim>\<open>minioObjectInfo\<close> is defined in another file of the gateway
  package.  The completion "returns object metadata including bucket, key, and the computed
  ETag": the bucket and the ETag are the ones passed in, the key is the object's.\<close>

definition minioObjectInfo :: "string \<Rightarrow> string \<Rightarrow> uplink_Object \<Rightarrow> ObjectInfo" where
  "minioObjectInfo bucket etag object =
     \<lparr>ObjectInfo.Bucket = bucket, ObjectInfo.Name = uplink_Object.Key object,
      ObjectInfo.ETag = etag\<rparr>"

definition CompleteMultipartUpload ::
  "gatewayLayer \<Rightarrow> string \<Rightarrow> string \<Rightarrow> string \<Rightarrow> CompletePart list \<Rightarrow> ObjectOptions
     \<Rightarrow> ObjectInfo \<times> error option \<times> call list" where
  "CompleteMultipartUpload layer bucket object uploadID uploadedParts opts =
     (case openProjectMultipart layer of
        Some err \<Rightarrow> (ObjectInfo_zero, Some err, [])
      | None \<Rightarrow>
          (case multipartUploadETag uploadedParts of
             (etag, Some err) \<Rightarrow>
               (ObjectInfo_zero,
                errs_Combine (Some (convertMultipartError layer err bucket object uploadID))
                  (project_Close layer),
                [])
           | (etag, None) \<Rightarrow>
               (let metadata = (ObjectOptions.UserDefined opts)(''s3:etag'' \<mapsto> etag) in
                case multipart_CompleteMultipartUpload layer bucket object uploadID metadata of
                  Inl err \<Rightarrow>
                    (ObjectInfo_zero,
                     errs_Combine (Some (convertMultipartError layer err bucket object uploadID))
                       (project_Close layer),
                     [CompleteMultipartUpload_call bucket object uploadID metadata])
                | Inr obj \<Rightarrow>
                    (minioObjectInfo bucket etag obj,
                     errs_Combine None (project_Close layer),
                     [CompleteMultipartUpload_call bucket object uploadID metadata]))))"





subsection \<open>\<^verbatim>\<open>ListMultipartUploads\<close>\<close>

definition strings_HasSuffix :: "string \<Rightarrow> string \<Rightarrow> bool" where
  "strings_HasSuffix s suffix =
     (length s \<ge> length suffix \<and> drop (length s - length suffix) s = suffix)"

definition multipart_Object_zero :: multipart_Object where
  "multipart_Object_zero =
     \<lparr>multipart_Object.Key = [], multipart_Object.IsPrefix = False,
      multipart_Object.StreamID = [], multipart_Object.Created = 0,
      multipart_Object.Custom = Map.empty\<rparr>"

definition minioMultipartInfo :: "string \<Rightarrow> multipart_Object option \<Rightarrow> MultipartInfo" where
  "minioMultipartInfo bucket object0 =
     (let object = (case object0 of None \<Rightarrow> multipart_Object_zero | Some ob \<Rightarrow> ob) in
      \<lparr>MultipartInfo.Bucket = bucket,
       MultipartInfo.Object = multipart_Object.Key object,
       MultipartInfo.Initiated = multipart_Object.Created object,
       MultipartInfo.UploadID = multipart_Object.StreamID object,
       MultipartInfo.UserDefined = multipart_Object.Custom object\<rparr>)"

text \<open>The loop \<^verbatim>\<open>for (limit > 0 || maxUploads == 0) && list.Next()\<close>.  It returns the variables
  it has changed; \<open>None\<close> is the nil dereference of \<^verbatim>\<open>object.IsPrefix\<close> when \<^verbatim>\<open>list.Item()\<close>
  is nil.\<close>

function ListMultipartUploads_loop ::
  "string \<Rightarrow> go_int \<Rightarrow> go_int \<Rightarrow> UploadIterator \<Rightarrow> MultipartInfo list \<Rightarrow> string list \<Rightarrow> string
     \<Rightarrow> call list
     \<Rightarrow> (go_int \<times> UploadIterator \<times> MultipartInfo list \<times> string list \<times> string \<times> call list) option"
  where
  "ListMultipartUploads_loop bucket maxUploads limit list uploads prefixes startAfter calls =
     (if 0 <s limit \<or> maxUploads = 0 then
        (case Next list of
           (False, list') \<Rightarrow>
             Some (limit, list', uploads, prefixes, startAfter, calls @ [Next_call])
         | (True, list') \<Rightarrow>
             (case Item list' of
                None \<Rightarrow> None
              | Some object \<Rightarrow>
                  if multipart_Object.IsPrefix object
                  then ListMultipartUploads_loop bucket maxUploads (limit - 1) list' uploads
                         (prefixes @ [multipart_Object.Key object]) startAfter
                         (calls @ [Next_call])
                  else ListMultipartUploads_loop bucket maxUploads (limit - 1) list'
                         (uploads @ [minioMultipartInfo bucket (Some object)]) prefixes
                         (multipart_Object.Key object) (calls @ [Next_call])))
      else Some (limit, list, uploads, prefixes, startAfter, calls))"
  by pat_completeness auto
termination
  by (relation "measure (\<lambda>(bucket, maxUploads, limit, list, rest). length (iter_pending list))")
     (auto simp: Next_def split: option.splits list.splits)

definition ListMultipartsInfo_zero :: ListMultipartsInfo where
  "ListMultipartsInfo_zero =
     \<lparr>ListMultipartsInfo.KeyMarker = [], ListMultipartsInfo.UploadIDMarker = [],
      ListMultipartsInfo.NextKeyMarker = [], ListMultipartsInfo.MaxUploads = 0,
      ListMultipartsInfo.IsTruncated = False, ListMultipartsInfo.Uploads = [],
      ListMultipartsInfo.Prefix = [], ListMultipartsInfo.Delimiter = [],
      ListMultipartsInfo.CommonPrefixes = []\<rparr>"

text \<open>The function from \<^verbatim>\<open>startAfter := keyMarker\<close> to its last return, on the iterator
  \<open>list0\<close> that one of the two listing calls has returned.  The iterator it leaves behind
  is part of the result.\<close>

definition ListMultipartUploads_page ::
  "gatewayLayer \<Rightarrow> string \<Rightarrow> string \<Rightarrow> string \<Rightarrow> string \<Rightarrow> string \<Rightarrow> go_int \<Rightarrow> UploadIterator
     \<Rightarrow> (ListMultipartsInfo \<times> error option \<times> UploadIterator \<times> call list) option" where
  "ListMultipartUploads_page layer bucket prefix keyMarker uploadIDMarker delimiter maxUploads list0 =
     (case ListMultipartUploads_loop bucket maxUploads maxUploads list0 [] [] keyMarker [] of
        None \<Rightarrow> None
      | Some (limit, list, uploads, prefixes, startAfter, calls) \<Rightarrow>
          (case Err list of
             Some e \<Rightarrow>
               Some (ListMultipartsInfo_zero, Some (convertMultipartError layer e bucket [] []),
                     list, calls)
           | None \<Rightarrow>
               (case Next list of
                  (more', list') \<Rightarrow>
                    (case Err list' of
                       Some e \<Rightarrow>
                         Some (ListMultipartsInfo_zero,
                               Some (convertMultipartError layer e bucket [] []),
                               list', calls @ [Next_call])
                     | None \<Rightarrow>
                         (let result =
                                \<lparr>ListMultipartsInfo.KeyMarker = keyMarker,
                                 ListMultipartsInfo.UploadIDMarker = uploadIDMarker,
                                 ListMultipartsInfo.NextKeyMarker = [],
                                 ListMultipartsInfo.MaxUploads = maxUploads,
                                 ListMultipartsInfo.IsTruncated = more',
                                 ListMultipartsInfo.Uploads = uploads,
                                 ListMultipartsInfo.Prefix = prefix,
                                 ListMultipartsInfo.Delimiter = delimiter,
                                 ListMultipartsInfo.CommonPrefixes = prefixes\<rparr>;
                              result = (if more'
                                        then result\<lparr>ListMultipartsInfo.NextKeyMarker := startAfter\<rparr>
                                        else result)
                          in Some (result, None, list', calls @ [Next_call]))))))"

text \<open>The choice between the two listing calls.\<close>

definition ListMultipartUploads_list ::
  "gatewayLayer \<Rightarrow> string \<Rightarrow> string \<Rightarrow> string \<Rightarrow> string \<Rightarrow> UploadIterator \<times> call" where
  "ListMultipartUploads_list layer bucket prefix keyMarker delimiter =
     (let recursive = (delimiter = []) in
      if prefix \<noteq> [] \<and> \<not> strings_HasSuffix prefix ''/'' then
        (let options = \<lparr>ListMultipartUploadsOptions.Prefix = [],
                         ListMultipartUploadsOptions.Cursor = [],
                         ListMultipartUploadsOptions.Recursive = False,
                         ListMultipartUploadsOptions.System = True,
                         ListMultipartUploadsOptions.Custom = True\<rparr>
         in (multipart_ListPendingObjectStreams layer bucket prefix options,
             ListPendingObjectStreams_call bucket prefix options))
      else
        (let options = \<lparr>ListMultipartUploadsOptions.Prefix = prefix,
                         ListMultipartUploadsOptions.Cursor = keyMarker,
                         ListMultipartUploadsOptions.Recursive = recursive,
                         ListMultipartUploadsOptions.System = True,
                         ListMultipartUploadsOptions.Custom = True\<rparr>
         in (multipart_ListMultipartUploads layer bucket options,
             ListMultipartUploads_call bucket options)))"

text \<open>The whole function.  The deferred \<^verbatim>\<open>checkBucketError\<close> is registered after the two
  checks of the arguments, so it runs, before the project is closed, on every later
  return.\<close>

definition ListMultipartUploads ::
  "gatewayLayer \<Rightarrow> string \<Rightarrow> string \<Rightarrow> string \<Rightarrow> string \<Rightarrow> string \<Rightarrow> go_int
     \<Rightarrow> (ListMultipartsInfo \<times> error option \<times> call list) option" where
  "ListMultipartUploads layer bucket prefix keyMarker uploadIDMarker delimiter maxUploads =
     (case openProjectMultipart layer of
        Some e \<Rightarrow> Some (ListMultipartsInfo_zero, Some e, [])
      | None \<Rightarrow>
          if bucket = [] then
            Some (ListMultipartsInfo_zero,
                  errs_Combine (Some BucketNameInvalid) (project_Close layer), [])
          else if delimiter \<noteq> [] \<and> delimiter \<noteq> ''/'' then
            Some (ListMultipartsInfo_zero,
                  errs_Combine (Some (UnsupportedDelimiter delimiter)) (project_Close layer), [])
          else
            (case ListMultipartUploads_list layer bucket prefix keyMarker delimiter of
               (list, listing) \<Rightarrow>
                 (case ListMultipartUploads_page layer bucket prefix keyMarker uploadIDMarker
                         delimiter maxUploads list of
                    None \<Rightarrow> None
                  | Some (result, e, list', calls) \<Rightarrow>
                      Some (result,
                            errs_Combine (checkBucketError layer bucket [] e) (project_Close layer),
                            listing # calls @ [checkBucketError_call bucket [] e]))))"

subsection \<open>The listing loop as the specification words it\<close>

text \<open>The loop in which an item tagged as a prefix consumes no quota: \<open>limit\<close> is
  decremented for upload items only.\<close>

function spec_ListMultipartUploads_loop ::
  "string \<Rightarrow> go_int \<Rightarrow> go_int \<Rightarrow> UploadIterator \<Rightarrow> MultipartInfo list \<Rightarrow> string list \<Rightarrow> string
     \<Rightarrow> call list
     \<Rightarrow> (go_int \<times> UploadIterator \<times> MultipartInfo list \<times> string list \<times> string \<times> call list) option"
  where
  "spec_ListMultipartUploads_loop bucket maxUploads limit list uploads prefixes startAfter calls =
     (if 0 <s limit \<or> maxUploads = 0 then
        (case Next list of
           (False, list') \<Rightarrow>
             Some (limit, list', uploads, prefixes, startAfter, calls @ [Next_call])
         | (True, list') \<Rightarrow>
             (case Item list' of
                None \<Rightarrow> None
              | Some object \<Rightarrow>
                  if multipart_Object.IsPrefix object
                  then spec_ListMultipartUploads_loop bucket maxUploads limit list' uploads
                         (prefixes @ [multipart_Object.Key object]) startAfter
                         (calls @ [Next_call])
                  else spec_ListMultipartUploads_loop bucket maxUploads (limit - 1) list'
                         (uploads @ [minioMultipartInfo bucket (Some object)]) prefixes
                         (multipart_Object.Key object) (calls @ [Next_call])))
      else Some (limit, list, uploads, prefixes, startAfter, calls))"
  by pat_completeness auto
termination
  by (relation "measure (\<lambda>(bucket, maxUploads, limit, list, rest). length (iter_pending list))")
     (auto simp: Next_def split: option.splits list.splits)

declare ListMultipartUploads_loop.simps [simp del]

declare spec_ListMultipartUploads_loop.simps [simp del]

subsection \<open>The page that the loop iterates over\<close>

text \<open>The items of the iterator that the loop takes when it starts with \<open>limit\<close>: all
  of them when \<open>maxUploads\<close> is zero, else the first \<open>limit\<close> (none when \<open>limit\<close> is
  negative), prefixes and uploads alike.\<close>

definition iterated :: "go_int \<Rightarrow> go_int \<Rightarrow> multipart_Object list \<Rightarrow> multipart_Object list" where
  "iterated maxUploads limit items =
     (if maxUploads = 0 then items else take (nat (sint limit)) items)"

definition is_upload :: "multipart_Object \<Rightarrow> bool" where
  "is_upload object = (\<not> multipart_Object.IsPrefix object)"

section \<open>A sample storage network\<close>

text \<open>A network with one live upload \<open>U\<close>, three uploaded parts and three pending
  uploads, used for the concrete instances of the theorems below.\<close>

definition sample_parts :: multipart_PartsList where
  "sample_parts =
     \<lparr>Items =
        [\<lparr>multipart_PartInfo.PartNumber = 2, multipart_PartInfo.Size = 5,
          multipart_PartInfo.LastModified = 30\<rparr>,
         \<lparr>multipart_PartInfo.PartNumber = 0, multipart_PartInfo.Size = 7,
          multipart_PartInfo.LastModified = 10\<rparr>,
         \<lparr>multipart_PartInfo.PartNumber = 1, multipart_PartInfo.Size = 6,
          multipart_PartInfo.LastModified = 20\<rparr>],
      More = True\<rparr>"

definition sample_uploads :: UploadIterator where
  "sample_uploads =
     \<lparr>iter_pending =
        [\<lparr>multipart_Object.Key = ''a/'', multipart_Object.IsPrefix = True,
          multipart_Object.StreamID = [], multipart_Object.Created = 0,
          multipart_Object.Custom = Map.empty\<rparr>,
         \<lparr>multipart_Object.Key = ''b'', multipart_Object.IsPrefix = False,
          multipart_Object.StreamID = ''U'', multipart_Object.Created = 1,
          multipart_Object.Custom = Map.empty\<rparr>,
         \<lparr>multipart_Object.Key = ''c'', multipart_Object.IsPrefix = False,
          multipart_Object.StreamID = ''V'', multipart_Object.Created = 2,
          multipart_Object.Custom = Map.empty\<rparr>],
      iter_failure = None, iter_item = None, iter_err = None\<rparr>"

definition sample_layer :: gatewayLayer where
  "sample_layer =
     \<lparr>openProjectMultipart = None,
      project_Close = None,
      multipart_PutObjectPart =
        (\<lambda>bucket object uploadID index data.
           if uploadID = ''U''
           then Inr \<lparr>multipart_PartInfo.PartNumber = index,
                     multipart_PartInfo.Size = of_nat (length (reader_bytes data)),
                     multipart_PartInfo.LastModified = 0\<rparr>
           else Inl (Wrapped ''put part'' ErrStreamIDInvalid)),
      multipart_CompleteMultipartUpload =
        (\<lambda>bucket object uploadID metadata.
           if uploadID = ''U''
           then Inr \<lparr>uplink_Object.Key = object, uplink_Object.Created = 0,
                     uplink_Object.ContentLength = 0, uplink_Object.Custom = metadata\<rparr>
           else Inl ErrStreamIDInvalid),
      multipart_ListObjectParts =
        (\<lambda>bucket object uploadID marker maxParts.
           if uploadID = ''U'' then Inr sample_parts else Inl ErrStreamIDInvalid),
      multipart_ListPendingObjectStreams = (\<lambda>bucket prefix options. sample_uploads),
      multipart_ListMultipartUploads = (\<lambda>bucket options. sample_uploads),
      convertError = (\<lambda>err bucket object. err),
      checkBucketError = (\<lambda>bucket object err. err)\<rparr>"

definition sample_reader :: PutObjReader where
  "sample_reader =
     \<lparr>reader_bytes = ''data''\<rparr>"

definition sample_record :: Record where
  "sample_record =
     \<lparr>SatelliteAddress = ''TODO'', MacaroonHead = ''TODO'', EncryptedSecretKey = ''TODO'',
      EncryptedAccessGrant = ''grant''\<rparr>"

section \<open>Verification of the ETag composer\<close>

subsection \<open>The library functions\<close>

lemma IndexByte_takeWhile:
  "(if strings_IndexByte s c \<ge> 0 then take (nat (strings_IndexByte s c)) s else s)
     = takeWhile (\<lambda>x. x \<noteq> c) s"
proof (induction s)
  case Nil
  then show ?case by simp
next
  case (Cons x xs)
  show ?case
  proof (cases "x = c")
    case True
    then show ?thesis by simp
  next
    case False
    with Cons show ?thesis
      by (auto simp: Let_def nat_add_distrib split: if_splits)
  qed
qed

lemma nibble_or:
  assumes "b \<le> 15"
  shows "push_bit 4 a OR b = 16 * a + (b::nat)"
proof -
  have b: "take_bit 4 b = b"
    using assms by (simp add: take_bit_nat_eq_self_iff)
  have "push_bit 4 a AND take_bit 4 b = 0"
    by (rule bit_eqI) (auto simp: bit_simps)
  then have "push_bit 4 a AND b = 0"
    by (simp only: b)
  then have "push_bit 4 a + b = push_bit 4 a OR b"
    by (rule disjunctive_add_eq_or)
  then show ?thesis
    by (simp add: push_bit_eq_mult)
qed

lemma is_hex_digit_ranges:
  "is_hex_digit c \<longleftrightarrow>
     (48 \<le> (of_char c :: nat) \<and> (of_char c :: nat) \<le> 57) \<or>
     (97 \<le> (of_char c :: nat) \<and> (of_char c :: nat) \<le> 102) \<or>
     (65 \<le> (of_char c :: nat) \<and> (of_char c :: nat) \<le> 70)"
proof -
  have "is_hex_digit c \<longleftrightarrow>
          (of_char c :: nat) \<in> {48, 49, 50, 51, 52, 53, 54, 55, 56, 57,
                                  97, 98, 99, 100, 101, 102, 65, 66, 67, 68, 69, 70}"
    unfolding is_hex_digit_def
    by (simp only: set_simps insert_iff empty_iff of_char_eq_iff [where ?'a = nat, symmetric])
       simp
  also have "\<dots> \<longleftrightarrow>
     (48 \<le> (of_char c :: nat) \<and> (of_char c :: nat) \<le> 57) \<or>
     (97 \<le> (of_char c :: nat) \<and> (of_char c :: nat) \<le> 102) \<or>
     (65 \<le> (of_char c :: nat) \<and> (of_char c :: nat) \<le> 70)"
    by (simp only: insert_iff empty_iff) arith
  finally show ?thesis .
qed

lemma reverseHexTable_digit: "reverseHexTable c \<le> 15 \<longleftrightarrow> is_hex_digit c"
  unfolding is_hex_digit_ranges reverseHexTable_def Let_def by auto

lemma reverseHexTable_value: "is_hex_digit c \<Longrightarrow> reverseHexTable c = hex_digit_value c"
  unfolding is_hex_digit_def
  by (auto simp: reverseHexTable_def hex_digit_value_def)

lemma hex_Decode_valid: "is_hex_string s \<Longrightarrow> hex_Decode s = (hex_string_bytes s, None)"
proof (induction s rule: hex_Decode.induct)
  case (1 p q src)
  then have d: "is_hex_digit p" "is_hex_digit q" and r: "is_hex_string src"
    by (simp_all add: is_hex_string_def)
  from d have "reverseHexTable p \<le> 15" "reverseHexTable q \<le> 15"
    by (simp_all add: reverseHexTable_digit)
  with 1 d r show ?case
    by (simp add: Let_def nibble_or reverseHexTable_value)
next
  case (2 p)
  then show ?case by (simp add: is_hex_string_def)
next
  case 3
  then show ?case by simp
qed

lemma hex_Decode_invalid: "\<not> is_hex_string s \<Longrightarrow> \<exists>e. snd (hex_Decode s) = Some e"
proof (induction s rule: hex_Decode.induct)
  case (1 p q src)
  show ?case
  proof (cases "is_hex_digit p \<and> is_hex_digit q")
    case True
    with 1(2) have "\<not> is_hex_string src"
      by (simp add: is_hex_string_def)
    moreover from True have "\<not> 15 < reverseHexTable p" "\<not> 15 < reverseHexTable q"
      using reverseHexTable_digit by (simp_all add: not_less)
    ultimately show ?thesis
      using 1(1) by (auto simp: Let_def split: prod.splits)
  next
    case False
    then have "15 < reverseHexTable p \<or> 15 < reverseHexTable q"
      using reverseHexTable_digit by (auto simp: not_le [symmetric])
    then show ?thesis
      by (auto simp: Let_def)
  qed
next
  case (2 p)
  then show ?case by simp
next
  case 3
  then show ?case by (simp add: is_hex_string_def)
qed

lemma and_15: "(n::nat) AND 15 = n mod 16"
proof -
  have "(15::nat) = mask 4"
    by (simp add: mask_eq_exp_minus_1)
  then have "n AND 15 = take_bit 4 n"
    by (simp only: take_bit_eq_mask)
  then show ?thesis
    by (simp add: take_bit_eq_mod)
qed

lemma hextable_inj:
  assumes "i < 16" "j < 16" "hextable ! i = hextable ! j"
  shows "i = j"
proof -
  have "distinct hextable" and "length hextable = 16"
    by (simp_all add: hextable_def)
  with assms show ?thesis
    by (simp add: nth_eq_iff_index_eq)
qed

lemma hex_byte_inj:
  assumes "hextable ! (drop_bit 4 (of_char v :: nat)) = hextable ! (drop_bit 4 (of_char w :: nat))"
    and "hextable ! ((of_char v :: nat) AND 15) = hextable ! ((of_char w :: nat) AND 15)"
  shows "v = w"
proof -
  have lt: "\<And>c. (of_char c :: nat) < 256"
    by simp
  have hi: "\<And>c. drop_bit 4 (of_char c :: nat) < 16"
    using lt by (simp add: drop_bit_eq_div less_mult_imp_div_less)
  have lo: "\<And>c. (of_char c :: nat) AND 15 < 16"
    by (simp add: and_15)
  have "drop_bit 4 (of_char v :: nat) = drop_bit 4 (of_char w :: nat)"
    using assms(1) hi by (rule_tac hextable_inj) auto
  moreover have "(of_char v :: nat) AND 15 = (of_char w :: nat) AND 15"
    using assms(2) lo by (rule_tac hextable_inj) auto
  ultimately have "(of_char v :: nat) div 16 = of_char w div 16"
    and "(of_char v :: nat) mod 16 = of_char w mod 16"
    by (simp_all add: drop_bit_eq_div and_15)
  then have "(of_char v :: nat) = of_char w"
    by (metis div_mult_mod_eq)
  then show ?thesis by simp
qed

lemma hex_EncodeToString_inj:
  "hex_EncodeToString a = hex_EncodeToString b \<Longrightarrow> a = b"
proof (induction a arbitrary: b)
  case Nil
  then show ?case by (cases b) simp_all
next
  case (Cons v a)
  then show ?case
    by (cases b) (auto dest: hex_byte_inj)
qed

subsection \<open>The loop over the parts\<close>

lemma canonicalEtag_cut: "canonicalEtag etag = cut_at_hyphen (trim_quotes etag)"
  unfolding canonicalEtag_def cut_at_hyphen_def trim_quotes_def Let_def
  by (rule IndexByte_takeWhile)

lemma loop_step:
  "multipartUploadETag_loop (part # parts) hashes =
     multipartUploadETag_loop parts (hashes @ contribution cut_at_hyphen (CompletePart.ETag part))"
proof (cases "is_hex_string (canonicalEtag (CompletePart.ETag part))")
  case True
  then show ?thesis
    by (simp add: hex_DecodeString_def hex_Decode_valid contribution_def canonicalEtag_cut Let_def)
next
  case False
  from hex_Decode_invalid [OF this] obtain e b
    where "hex_Decode (canonicalEtag (CompletePart.ETag part)) = (b, Some e)"
    by (metis prod.collapse)
  with False show ?thesis
    by (simp add: hex_DecodeString_def contribution_def canonicalEtag_cut Let_def)
qed

lemma loop_concat:
  "multipartUploadETag_loop parts hashes =
     hashes @ concat (map (\<lambda>part. contribution cut_at_hyphen (CompletePart.ETag part)) parts)"
proof (induction parts arbitrary: hashes)
  case Nil
  then show ?case by simp
next
  case (Cons part parts)
  show ?case
    by (simp only: loop_step Cons.IH) simp
qed

lemma multipartUploadETag_value:
  "multipartUploadETag parts =
     (hex_EncodeToString
        (md5_Sum (concat (map (\<lambda>part. contribution cut_at_hyphen (CompletePart.ETag part)) parts)))
      @ ''-'' @ decimal (length parts), None)"
  by (simp add: multipartUploadETag_def loop_concat strconv_Itoa_def Let_def)


subsection \<open>Claims\<close>

text \<open>
  C1, as the specification words it: for every list of parts the function returns the hex
  encoding of one MD5 digest over the concatenated contributions, \<open>-\<close> and the part count,
  where a contribution is the ETag with the surrounding quotes trimmed and a trailing
  \<open>-<count>\<close> suffix stripped, hex-decoded, or the raw ETag when that is no valid hex.  This
  fails for the ETag \<open>ab-1-2\<close>: the code cuts at the first hyphen and hashes the byte
  \<open>0xab\<close>, while stripping the trailing \<open>-2\<close> leaves \<open>ab-1\<close>, no valid hex, so that the
  raw ETag would be hashed.
\<close>

theorem multipartUploadETag_suffix_counterexample:
  "fst (multipartUploadETag [\<lparr>CompletePart.PartNumber = 1, CompletePart.ETag = ''ab-1-2''\<rparr>])
     \<noteq> spec_ComputeAggregateETag [''ab-1-2'']"
  by code_simp

text \<open>
  C1, amended: for every list of parts, \<open>multipartUploadETag\<close> returns, with a nil error,
  the hex encoding of one MD5 digest over the concatenation, in the given order, of the
  contributions of the parts, followed by \<open>-\<close> and the number of parts in decimal; the
  contribution of a part is its ETag with the surrounding quote characters trimmed and
  everything from the first hyphen on removed, hex-decoded, or the raw bytes of the ETag when
  that remainder is not valid hex.
\<close>

theorem multipartUploadETag_aggregate:
  "multipartUploadETag parts = (aggregate cut_at_hyphen (map CompletePart.ETag parts), None)"
  by (simp add: multipartUploadETag_value aggregate_def comp_def)

theorem multipartUploadETag_aggregate_witness:
  "multipartUploadETag
     [\<lparr>CompletePart.PartNumber = 1,
       CompletePart.ETag = [CHR 0x22, CHR ''a'', CHR ''a'', CHR 0x22]\<rparr>,
      \<lparr>CompletePart.PartNumber = 2, CompletePart.ETag = ''bb-1''\<rparr>]
   = (''58cea1f6b2b06520613e09af90dc1c47-2'', None)"
proof -
  have "aggregate cut_at_hyphen ([CHR 0x22, CHR ''a'', CHR ''a'', CHR 0x22] # [''bb-1''])
          = ''58cea1f6b2b06520613e09af90dc1c47-2''"
    by code_simp
  with multipartUploadETag_aggregate
      [of "[\<lparr>CompletePart.PartNumber = 1,
              CompletePart.ETag = [CHR 0x22, CHR ''a'', CHR ''a'', CHR 0x22]\<rparr>,
             \<lparr>CompletePart.PartNumber = 2, CompletePart.ETag = ''bb-1''\<rparr>]"]
  show ?thesis by simp
qed

text \<open>
  C2, as stated, asks that two distinct part ETags give different aggregates in the two
  orders.  The ETags \<open>ab\<close> and \<open>ab-1\<close> are distinct and have the same contribution, so
  both orders hash the same bytes.
\<close>

theorem multipartUploadETag_order_counterexample:
  "CompletePart.ETag \<lparr>CompletePart.PartNumber = 1, CompletePart.ETag = ''ab''\<rparr>
     \<noteq> CompletePart.ETag \<lparr>CompletePart.PartNumber = 2, CompletePart.ETag = ''ab-1''\<rparr>
   \<and> multipartUploadETag
        [\<lparr>CompletePart.PartNumber = 1, CompletePart.ETag = ''ab''\<rparr>,
         \<lparr>CompletePart.PartNumber = 2, CompletePart.ETag = ''ab-1''\<rparr>]
     = multipartUploadETag
        [\<lparr>CompletePart.PartNumber = 2, CompletePart.ETag = ''ab-1''\<rparr>,
         \<lparr>CompletePart.PartNumber = 1, CompletePart.ETag = ''ab''\<rparr>]"
proof -
  have "contribution cut_at_hyphen ''ab-1'' = contribution cut_at_hyphen ''ab''"
    by code_simp
  then show ?thesis
    by (simp add: multipartUploadETag_value)
qed

text \<open>
  C2, amended: the aggregate ETag is deterministic, that is, two lists of parts with the
  same ETags in the same order have the same aggregate; and it is as order-sensitive as
  the digest is: the aggregates of \<open>[p1, p2]\<close> and \<open>[p2, p1]\<close> are equal if and only if
  the MD5 digests of the two concatenations of the contributions are equal.
\<close>

theorem multipartUploadETag_order:
  "(map CompletePart.ETag ps = map CompletePart.ETag qs
      \<longrightarrow> multipartUploadETag ps = multipartUploadETag qs)
   \<and> (multipartUploadETag [p1, p2] = multipartUploadETag [p2, p1]
      \<longleftrightarrow> md5_Sum (contribution cut_at_hyphen (CompletePart.ETag p1)
                     @ contribution cut_at_hyphen (CompletePart.ETag p2))
          = md5_Sum (contribution cut_at_hyphen (CompletePart.ETag p2)
                     @ contribution cut_at_hyphen (CompletePart.ETag p1)))"
proof (intro conjI impI)
  assume eq: "map CompletePart.ETag ps = map CompletePart.ETag qs"
  have m: "\<And>xs. map (\<lambda>part. contribution cut_at_hyphen (CompletePart.ETag part)) xs
          = map (contribution cut_at_hyphen) (map CompletePart.ETag xs)"
    by simp
  from eq have l: "length ps = length qs"
    by (rule map_eq_imp_length_eq)
  show "multipartUploadETag ps = multipartUploadETag qs"
    by (simp only: multipartUploadETag_value m eq l)
next
  show "multipartUploadETag [p1, p2] = multipartUploadETag [p2, p1]
      \<longleftrightarrow> md5_Sum (contribution cut_at_hyphen (CompletePart.ETag p1)
                     @ contribution cut_at_hyphen (CompletePart.ETag p2))
          = md5_Sum (contribution cut_at_hyphen (CompletePart.ETag p2)
                     @ contribution cut_at_hyphen (CompletePart.ETag p1))"
    by (auto simp: multipartUploadETag_value dest: hex_EncodeToString_inj)
qed

theorem multipartUploadETag_order_witness:
  "map CompletePart.ETag
       [\<lparr>CompletePart.PartNumber = 1, CompletePart.ETag = ''aa''\<rparr>,
        \<lparr>CompletePart.PartNumber = 2, CompletePart.ETag = ''bb''\<rparr>]
     = map CompletePart.ETag
       [\<lparr>CompletePart.PartNumber = 7, CompletePart.ETag = ''aa''\<rparr>,
        \<lparr>CompletePart.PartNumber = 9, CompletePart.ETag = ''bb''\<rparr>]
   \<and> multipartUploadETag
       [\<lparr>CompletePart.PartNumber = 1, CompletePart.ETag = ''aa''\<rparr>,
        \<lparr>CompletePart.PartNumber = 2, CompletePart.ETag = ''bb''\<rparr>]
     = multipartUploadETag
       [\<lparr>CompletePart.PartNumber = 7, CompletePart.ETag = ''aa''\<rparr>,
        \<lparr>CompletePart.PartNumber = 9, CompletePart.ETag = ''bb''\<rparr>]
   \<and> multipartUploadETag
       [\<lparr>CompletePart.PartNumber = 1, CompletePart.ETag = ''aa''\<rparr>,
        \<lparr>CompletePart.PartNumber = 2, CompletePart.ETag = ''bb''\<rparr>]
     \<noteq> multipartUploadETag
       [\<lparr>CompletePart.PartNumber = 2, CompletePart.ETag = ''bb''\<rparr>,
        \<lparr>CompletePart.PartNumber = 1, CompletePart.ETag = ''aa''\<rparr>]"
proof -
  have c1: "contribution cut_at_hyphen ''aa'' = [CHR 0xAA]"
    by code_simp
  have c2: "contribution cut_at_hyphen ''bb'' = [CHR 0xBB]"
    by code_simp
  have m: "md5_Sum [CHR 0xAA, CHR 0xBB] \<noteq> md5_Sum [CHR 0xBB, CHR 0xAA]"
    by code_simp
  note order = multipartUploadETag_order
      [of "[\<lparr>CompletePart.PartNumber = 1, CompletePart.ETag = ''aa''\<rparr>,
            \<lparr>CompletePart.PartNumber = 2, CompletePart.ETag = ''bb''\<rparr>]"
          "[\<lparr>CompletePart.PartNumber = 7, CompletePart.ETag = ''aa''\<rparr>,
            \<lparr>CompletePart.PartNumber = 9, CompletePart.ETag = ''bb''\<rparr>]"
          "\<lparr>CompletePart.PartNumber = 1, CompletePart.ETag = ''aa''\<rparr>"
          "\<lparr>CompletePart.PartNumber = 2, CompletePart.ETag = ''bb''\<rparr>"]
  from order [THEN conjunct1] have same: "multipartUploadETag
       [\<lparr>CompletePart.PartNumber = 1, CompletePart.ETag = ''aa''\<rparr>,
        \<lparr>CompletePart.PartNumber = 2, CompletePart.ETag = ''bb''\<rparr>]
     = multipartUploadETag
       [\<lparr>CompletePart.PartNumber = 7, CompletePart.ETag = ''aa''\<rparr>,
        \<lparr>CompletePart.PartNumber = 9, CompletePart.ETag = ''bb''\<rparr>]"
    by simp
  from order [THEN conjunct2] c1 c2 m have differ: "multipartUploadETag
       [\<lparr>CompletePart.PartNumber = 1, CompletePart.ETag = ''aa''\<rparr>,
        \<lparr>CompletePart.PartNumber = 2, CompletePart.ETag = ''bb''\<rparr>]
     \<noteq> multipartUploadETag
       [\<lparr>CompletePart.PartNumber = 2, CompletePart.ETag = ''bb''\<rparr>,
        \<lparr>CompletePart.PartNumber = 1, CompletePart.ETag = ''aa''\<rparr>]"
    by simp
  from same differ show ?thesis
    by (intro conjI) simp_all
qed

section \<open>Verification of the credential store\<close>

text \<open>
  C8: after \<open>Invalidate(K, reasonA)\<close> followed by \<open>Invalidate(K, reasonB)\<close>, \<open>Get(K)\<close> fails
  with an \<open>Invalid\<close> error carrying the first recorded reason, whatever \<open>entries\<close> holds
  for \<open>K\<close>: the reason is \<open>reasonA\<close> when no reason was recorded for \<open>K\<close> before the
  two calls, and the one recorded before otherwise.  Both calls return a nil error.
\<close>

theorem Invalidate_first_reason:
  "(invalid d keyHash = None \<longrightarrow>
      Get (fst (Invalidate (fst (Invalidate d keyHash reasonA)) keyHash reasonB)) keyHash
        = (None, Some (auth_Invalid reasonA)))
   \<and> (\<forall>reason0. invalid d keyHash = Some reason0 \<longrightarrow>
      Get (fst (Invalidate (fst (Invalidate d keyHash reasonA)) keyHash reasonB)) keyHash
        = (None, Some (auth_Invalid reason0)))
   \<and> snd (Invalidate d keyHash reasonA) = None
   \<and> snd (Invalidate (fst (Invalidate d keyHash reasonA)) keyHash reasonB) = None"
  by (auto simp: Invalidate_def Get_def split: option.splits)

theorem Invalidate_first_reason_witness:
  "invalid (fst (Put New 5 (Some sample_record))) 5 = None
   \<and> entries (fst (Put New 5 (Some sample_record))) 5 = Some (Some sample_record)
   \<and> Get (fst (Invalidate (fst (Invalidate (fst (Put New 5 (Some sample_record))) 5 ''reason-A'')) 5
              ''reason-B'')) 5
       = (None, Some (auth_Invalid ''reason-A''))
   \<and> invalid New 5 = None
   \<and> Get (fst (Invalidate (fst (Invalidate New 5 ''reason-A'')) 5 ''reason-B'')) 5
       = (None, Some (auth_Invalid ''reason-A''))
   \<and> invalid (fst (Invalidate New 5 ''reason-0'')) 5 = Some ''reason-0''
   \<and> Get (fst (Invalidate (fst (Invalidate (fst (Invalidate New 5 ''reason-0'')) 5 ''reason-A'')) 5
              ''reason-B'')) 5
       = (None, Some (auth_Invalid ''reason-0''))"
proof -
  have h: "invalid (fst (Put New 5 (Some sample_record))) 5 = None"
    by (simp add: Put_def New_def)
  have h': "invalid New 5 = None"
    by (simp add: New_def)
  have h0: "invalid (fst (Invalidate New 5 ''reason-0'')) 5 = Some ''reason-0''"
    by (simp add: Invalidate_def New_def)
  have e: "entries (fst (Put New 5 (Some sample_record))) 5 = Some (Some sample_record)"
    by (simp add: Put_def New_def)
  from h h' h0 e
    Invalidate_first_reason [of "fst (Put New 5 (Some sample_record))" 5 "''reason-A''" "''reason-B''"]
    Invalidate_first_reason [of New 5 "''reason-A''" "''reason-B''"]
    Invalidate_first_reason [of "fst (Invalidate New 5 ''reason-0'')" 5 "''reason-A''" "''reason-B''"]
  show ?thesis by blast
qed

text \<open>
  C9: after a successful \<open>Put(K, R1)\<close>, a further \<open>Put(K, R2)\<close> fails with the error "record
  already exists" and leaves the store as it was: the record under \<open>K\<close> is still \<open>R1\<close>.
  The first \<open>Put\<close> does not touch the invalidation map.
\<close>

theorem Put_existing:
  "Put d keyHash record1 = (d1, None) \<Longrightarrow>
     Put d1 keyHash record2 = (d1, Some (errs_New ''record already exists''))
     \<and> entries d1 keyHash = Some record1
     \<and> invalid d1 = invalid d"
  by (auto simp: Put_def split: option.splits)

theorem Put_existing_witness:
  "Put New 5 (Some sample_record) = (fst (Put New 5 (Some sample_record)), None)
   \<and> Put (fst (Put New 5 (Some sample_record))) 5 None
       = (fst (Put New 5 (Some sample_record)), Some (errs_New ''record already exists''))
   \<and> entries (fst (Put New 5 (Some sample_record))) 5 = Some (Some sample_record)"
proof -
  have h: "Put New 5 (Some sample_record) = (fst (Put New 5 (Some sample_record)), None)"
    by (simp add: Put_def New_def)
  from Put_existing [OF h, of None] h show ?thesis by simp
qed

section \<open>Verification of the multipart upload adapter\<close>

subsection \<open>Errors\<close>

lemma errs_Combine_None_iff: "errs_Combine e1 e2 = None \<longleftrightarrow> e1 = None \<and> e2 = None"
  by (simp add: errs_Combine_def split: option.splits)

lemma errors_Is_refl: "errors_Is e e"
  by (cases e) simp_all

lemma fails_with_Combine: "fails_with (errs_Combine (Some e) c) e"
  by (simp add: fails_with_def errs_Combine_def errors_Is_refl split: option.splits)

subsection \<open>The operations on one upload\<close>

text \<open>
  C10: \<open>GetMultipartInfo\<close> succeeds on every input: it returns, with a nil error and without
  any call into the storage network, the info whose bucket, object and upload ID are the
  arguments, whatever the layer and whether or not the upload ID belongs to an upload.
\<close>

theorem GetMultipartInfo_echo:
  "GetMultipartInfo layer bucket object uploadID opts =
     (\<lparr>MultipartInfo.Bucket = bucket, MultipartInfo.Object = object,
       MultipartInfo.Initiated = 0, MultipartInfo.UploadID = uploadID,
       MultipartInfo.UserDefined = Map.empty\<rparr>, None, [])"
  by (simp add: GetMultipartInfo_def MultipartInfo_zero_def)

text \<open>
  C7: every call that \<open>PutObjectPart\<close> makes into the network is \<open>multipart.PutObjectPart\<close>
  with the index \<open>partID - 1\<close>.  When it succeeds, that call has been made once and has
  answered with a part info; the returned part has the given part number, the size that the
  network reported, and as its ETag the content hash of the bytes that the client supplied
  (what \<open>MD5CurrentHexString\<close> of the reader gives: the hex encoding of their MD5 digest),
  not a value of the network's answer.  When the project is open and the network answers
  that the stream ID is invalid, the call fails with \<open>InvalidUploadID\<close> carrying bucket,
  object and upload ID (combined with the error of closing the project, if closing fails).
\<close>

theorem PutObjectPart_result:
  "set (snd (snd (PutObjectPart layer bucket object uploadID partID data opts)))
     \<subseteq> {PutObjectPart_call bucket object uploadID (partID - 1) data}
   \<and> (PutObjectPart layer bucket object uploadID partID data opts = (info, None, calls) \<longrightarrow>
      (\<exists>partInfo.
          multipart_PutObjectPart layer bucket object uploadID (partID - 1) data = Inr partInfo
        \<and> calls = [PutObjectPart_call bucket object uploadID (partID - 1) data]
        \<and> PartInfo.PartNumber info = partID
        \<and> PartInfo.Size info = multipart_PartInfo.Size partInfo
        \<and> PartInfo.ETag info = MD5CurrentHexString data
        \<and> PartInfo.ETag info = hex_EncodeToString (md5_Sum (reader_bytes data))))
   \<and> (openProjectMultipart layer = None
      \<and> multipart_PutObjectPart layer bucket object uploadID (partID - 1) data = Inl e
      \<and> errors_Is e ErrStreamIDInvalid \<longrightarrow>
        PutObjectPart layer bucket object uploadID partID data opts
          = (PartInfo_zero,
             errs_Combine (Some (InvalidUploadID bucket object uploadID)) (project_Close layer),
             [PutObjectPart_call bucket object uploadID (partID - 1) data])
      \<and> fails_with (fst (snd (PutObjectPart layer bucket object uploadID partID data opts)))
           (InvalidUploadID bucket object uploadID))"
  by (auto simp: PutObjectPart_def errs_Combine_None_iff fails_with_Combine
        convertMultipartError_def MD5CurrentHexString_def
      split: option.splits sum.splits)

theorem PutObjectPart_result_witness:
  "PutObjectPart sample_layer ''b'' ''o'' ''U'' 1 sample_reader
       \<lparr>ObjectOptions.UserDefined = Map.empty\<rparr>
     = (fst (PutObjectPart sample_layer ''b'' ''o'' ''U'' 1 sample_reader
               \<lparr>ObjectOptions.UserDefined = Map.empty\<rparr>),
        None, [PutObjectPart_call ''b'' ''o'' ''U'' 0 sample_reader])
   \<and> PartInfo.PartNumber (fst (PutObjectPart sample_layer ''b'' ''o'' ''U'' 1 sample_reader
               \<lparr>ObjectOptions.UserDefined = Map.empty\<rparr>)) = 1
   \<and> PartInfo.Size (fst (PutObjectPart sample_layer ''b'' ''o'' ''U'' 1 sample_reader
               \<lparr>ObjectOptions.UserDefined = Map.empty\<rparr>)) = 4
   \<and> PartInfo.ETag (fst (PutObjectPart sample_layer ''b'' ''o'' ''U'' 1 sample_reader
               \<lparr>ObjectOptions.UserDefined = Map.empty\<rparr>))
       = ''8d777f385d3dfec8815d20f7496026dc''
   \<and> PutObjectPart sample_layer ''b'' ''o'' ''X'' 1 sample_reader
       \<lparr>ObjectOptions.UserDefined = Map.empty\<rparr>
     = (PartInfo_zero, Some (InvalidUploadID ''b'' ''o'' ''X''),
        [PutObjectPart_call ''b'' ''o'' ''X'' 0 sample_reader])"
proof -
  have h: "PutObjectPart sample_layer ''b'' ''o'' ''U'' 1 sample_reader
             \<lparr>ObjectOptions.UserDefined = Map.empty\<rparr>
     = (fst (PutObjectPart sample_layer ''b'' ''o'' ''U'' 1 sample_reader
             \<lparr>ObjectOptions.UserDefined = Map.empty\<rparr>), None,
        [PutObjectPart_call ''b'' ''o'' ''U'' 0 sample_reader])"
    by (simp add: PutObjectPart_def sample_layer_def errs_Combine_def)
  have o: "openProjectMultipart sample_layer = None"
    and c: "project_Close sample_layer = None"
    and n: "multipart_PutObjectPart sample_layer ''b'' ''o'' ''X'' (1 - 1) sample_reader
              = Inl (Wrapped ''put part'' ErrStreamIDInvalid)"
    and n': "multipart_PutObjectPart sample_layer ''b'' ''o'' ''U'' (1 - 1) sample_reader
              = Inr \<lparr>multipart_PartInfo.PartNumber = 0, multipart_PartInfo.Size = 4,
                     multipart_PartInfo.LastModified = 0\<rparr>"
    and i: "errors_Is (Wrapped ''put part'' ErrStreamIDInvalid) ErrStreamIDInvalid"
    by (simp_all add: sample_layer_def sample_reader_def)
  have m: "hex_EncodeToString (md5_Sum (reader_bytes sample_reader))
             = ''8d777f385d3dfec8815d20f7496026dc''"
    by code_simp
  from PutObjectPart_result [of sample_layer "''b''" "''o''" "''U''" 1 sample_reader
      "\<lparr>ObjectOptions.UserDefined = Map.empty\<rparr>"
      "fst (PutObjectPart sample_layer ''b'' ''o'' ''U'' 1 sample_reader
             \<lparr>ObjectOptions.UserDefined = Map.empty\<rparr>)"
      "[PutObjectPart_call ''b'' ''o'' ''U'' 0 sample_reader]"] h n' m
  have a: "PartInfo.PartNumber (fst (PutObjectPart sample_layer ''b'' ''o'' ''U'' 1 sample_reader
               \<lparr>ObjectOptions.UserDefined = Map.empty\<rparr>)) = 1
   \<and> PartInfo.Size (fst (PutObjectPart sample_layer ''b'' ''o'' ''U'' 1 sample_reader
               \<lparr>ObjectOptions.UserDefined = Map.empty\<rparr>)) = 4
   \<and> PartInfo.ETag (fst (PutObjectPart sample_layer ''b'' ''o'' ''U'' 1 sample_reader
               \<lparr>ObjectOptions.UserDefined = Map.empty\<rparr>))
       = ''8d777f385d3dfec8815d20f7496026dc''"
    by auto
  from PutObjectPart_result [of sample_layer "''b''" "''o''" "''X''" 1 sample_reader
      "\<lparr>ObjectOptions.UserDefined = Map.empty\<rparr>" _ _
      "Wrapped ''put part'' ErrStreamIDInvalid"] o c n i
  have b: "PutObjectPart sample_layer ''b'' ''o'' ''X'' 1 sample_reader
       \<lparr>ObjectOptions.UserDefined = Map.empty\<rparr>
     = (PartInfo_zero, Some (InvalidUploadID ''b'' ''o'' ''X''),
        [PutObjectPart_call ''b'' ''o'' ''X'' 0 sample_reader])"
    by (simp add: errs_Combine_def)
  from h a b show ?thesis
    by (intro conjI) simp_all
qed

text \<open>
  C3: when \<open>CompleteMultipartUpload\<close> succeeds, it has made exactly one call into the network,
  the completion call, whose custom metadata are the user-defined ones with the key
  \<open>s3:etag\<close> set to the aggregate ETag of the parts, and the ETag of the object info it
  returns is that same aggregate ETag.
\<close>

theorem CompleteMultipartUpload_etag:
  assumes "CompleteMultipartUpload layer bucket object uploadID uploadedParts opts
             = (objInfo, None, calls)"
  shows "\<exists>metadata.
       calls = [CompleteMultipartUpload_call bucket object uploadID metadata]
     \<and> metadata ''s3:etag'' = Some (fst (multipartUploadETag uploadedParts))
     \<and> metadata = (ObjectOptions.UserDefined opts)
                     (''s3:etag'' \<mapsto> fst (multipartUploadETag uploadedParts))
     \<and> ObjectInfo.ETag objInfo = fst (multipartUploadETag uploadedParts)
     \<and> ObjectInfo.Bucket objInfo = bucket"
  using assms
  by (auto simp: CompleteMultipartUpload_def multipartUploadETag_value Let_def minioObjectInfo_def
        errs_Combine_None_iff
      split: option.splits sum.splits)

theorem CompleteMultipartUpload_etag_witness:
  "CompleteMultipartUpload sample_layer ''b'' ''o'' ''U''
       [\<lparr>CompletePart.PartNumber = 1, CompletePart.ETag = ''aa''\<rparr>]
       \<lparr>ObjectOptions.UserDefined = Map.empty\<rparr>
     = (fst (CompleteMultipartUpload sample_layer ''b'' ''o'' ''U''
               [\<lparr>CompletePart.PartNumber = 1, CompletePart.ETag = ''aa''\<rparr>]
               \<lparr>ObjectOptions.UserDefined = Map.empty\<rparr>),
        None,
        [CompleteMultipartUpload_call ''b'' ''o'' ''U''
           [''s3:etag'' \<mapsto> fst (multipartUploadETag
             [\<lparr>CompletePart.PartNumber = 1, CompletePart.ETag = ''aa''\<rparr>])] ])
   \<and> ObjectInfo.ETag (fst (CompleteMultipartUpload sample_layer ''b'' ''o'' ''U''
               [\<lparr>CompletePart.PartNumber = 1, CompletePart.ETag = ''aa''\<rparr>]
               \<lparr>ObjectOptions.UserDefined = Map.empty\<rparr>))
       = fst (multipartUploadETag [\<lparr>CompletePart.PartNumber = 1, CompletePart.ETag = ''aa''\<rparr>])"
proof -
  have h: "CompleteMultipartUpload sample_layer ''b'' ''o'' ''U''
       [\<lparr>CompletePart.PartNumber = 1, CompletePart.ETag = ''aa''\<rparr>]
       \<lparr>ObjectOptions.UserDefined = Map.empty\<rparr>
     = (fst (CompleteMultipartUpload sample_layer ''b'' ''o'' ''U''
               [\<lparr>CompletePart.PartNumber = 1, CompletePart.ETag = ''aa''\<rparr>]
               \<lparr>ObjectOptions.UserDefined = Map.empty\<rparr>),
        None,
        [CompleteMultipartUpload_call ''b'' ''o'' ''U''
           [''s3:etag'' \<mapsto> fst (multipartUploadETag
             [\<lparr>CompletePart.PartNumber = 1, CompletePart.ETag = ''aa''\<rparr>])] ])"
    by (simp add: CompleteMultipartUpload_def sample_layer_def multipartUploadETag_value
          errs_Combine_def Let_def)
  from CompleteMultipartUpload_etag [OF h]
  have "ObjectInfo.ETag (fst (CompleteMultipartUpload sample_layer ''b'' ''o'' ''U''
               [\<lparr>CompletePart.PartNumber = 1, CompletePart.ETag = ''aa''\<rparr>]
               \<lparr>ObjectOptions.UserDefined = Map.empty\<rparr>))
       = fst (multipartUploadETag [\<lparr>CompletePart.PartNumber = 1, CompletePart.ETag = ''aa''\<rparr>])"
    by blast
  with h show ?thesis
    by (intro conjI)
qed



subsection \<open>Listing the uploads\<close>

text \<open>
  C4, as stated, promises \<open>BucketNameInvalid\<close> for every call with an empty bucket and
  \<open>UnsupportedDelimiter\<close> for every call with another delimiter than the empty one and
  \<open>/\<close>.  The function opens the project first, so a project that does not open makes the
  call fail with that error; and it checks the bucket first, so an empty bucket with the
  delimiter \<open>-\<close> gives \<open>BucketNameInvalid\<close> and not \<open>UnsupportedDelimiter\<close>.
\<close>

theorem ListMultipartUploads_validation_counterexample:
  "ListMultipartUploads (sample_layer\<lparr>openProjectMultipart := Some (OtherError ''no access'')\<rparr>)
       [] [] [] [] [] 10
     = Some (ListMultipartsInfo_zero, Some (OtherError ''no access''), [])
   \<and> \<not> fails_with (Some (OtherError ''no access'')) BucketNameInvalid
   \<and> ListMultipartUploads sample_layer [] [] [] [] ''-'' 10
     = Some (ListMultipartsInfo_zero, Some BucketNameInvalid, [])
   \<and> \<not> fails_with (Some BucketNameInvalid) (UnsupportedDelimiter ''-'')"
  by (simp add: ListMultipartUploads_def sample_layer_def errs_Combine_def fails_with_def)

text \<open>
  C4, amended: in every call of \<open>ListMultipartUploads\<close> in which the project has been opened,
  an empty bucket gives \<open>BucketNameInvalid\<close>, and a non-empty bucket with a delimiter that is
  neither empty nor \<open>/\<close> gives \<open>UnsupportedDelimiter\<close> carrying that delimiter (either one
  combined with the error of closing the project, if closing fails); in both cases the
  function returns before it has made any call into the stream API.
\<close>

theorem ListMultipartUploads_validation:
  assumes "openProjectMultipart layer = None"
  shows "(bucket = [] \<longrightarrow>
            ListMultipartUploads layer bucket prefix keyMarker uploadIDMarker delimiter maxUploads
              = Some (ListMultipartsInfo_zero,
                      errs_Combine (Some BucketNameInvalid) (project_Close layer), []))
     \<and> (bucket \<noteq> [] \<and> delimiter \<noteq> [] \<and> delimiter \<noteq> ''/'' \<longrightarrow>
            ListMultipartUploads layer bucket prefix keyMarker uploadIDMarker delimiter maxUploads
              = Some (ListMultipartsInfo_zero,
                      errs_Combine (Some (UnsupportedDelimiter delimiter)) (project_Close layer),
                      []))
     \<and> fails_with (errs_Combine (Some BucketNameInvalid) (project_Close layer)) BucketNameInvalid
     \<and> fails_with (errs_Combine (Some (UnsupportedDelimiter delimiter)) (project_Close layer))
          (UnsupportedDelimiter delimiter)"
  using assms by (simp add: ListMultipartUploads_def fails_with_Combine)

theorem ListMultipartUploads_validation_witness:
  "openProjectMultipart sample_layer = None
   \<and> ListMultipartUploads sample_layer [] ''p'' ''k'' ''u'' ''/'' 10
       = Some (ListMultipartsInfo_zero, Some BucketNameInvalid, [])
   \<and> ListMultipartUploads sample_layer ''b'' ''p'' ''k'' ''u'' ''-'' 10
       = Some (ListMultipartsInfo_zero, Some (UnsupportedDelimiter ''-''), [])"
proof -
  have o: "openProjectMultipart sample_layer = None"
    and c: "project_Close sample_layer = None"
    by (simp_all add: sample_layer_def)
  from ListMultipartUploads_validation [OF o, of "[]" "''p''" "''k''" "''u''" "''/''" 10]
       ListMultipartUploads_validation [OF o, of "''b''" "''p''" "''k''" "''u''" "''-''" 10]
       o c
  show ?thesis by (simp add: errs_Combine_def)
qed

subsection \<open>The page of uploads\<close>

lemma sint_dec:
  assumes "0 <s (l :: 64 word)"
  shows "sint (l - 1) = sint l - 1"
proof -
  from assms have p: "0 < sint l"
    by (simp add: word_sless_alt)
  have u: "sint l < 2 ^ 63"
    using sint_lt [of l] by simp
  have "sint (l - 1) = signed_take_bit 63 (sint l - 1)"
    by (simp add: sint_word_ariths)
  also from p u have "\<dots> = sint l - 1"
    by (intro signed_take_bit_int_eq_self) simp_all
  finally show ?thesis .
qed

lemma iterated_Nil: "iterated maxUploads limit [] = []"
  by (simp add: iterated_def)

lemma iterated_Cons:
  assumes "0 <s limit \<or> maxUploads = 0"
  shows "iterated maxUploads limit (x # xs) = x # iterated maxUploads (limit - 1) xs"
proof (cases "maxUploads = 0")
  case True
  then show ?thesis by (simp add: iterated_def)
next
  case False
  with assms have l: "0 <s limit" by simp
  then have "0 < sint limit" by (simp add: word_sless_alt)
  then obtain n where n: "nat (sint limit) = Suc n"
    by (cases "nat (sint limit)") simp_all
  from sint_dec [OF l] n have "nat (sint (limit - 1)) = n"
    by simp
  with n False show ?thesis by (simp add: iterated_def)
qed

lemma iterated_stop:
  assumes "\<not> (0 <s limit \<or> maxUploads = 0)"
  shows "iterated maxUploads limit xs = []"
  using assms by (simp add: iterated_def word_sless_alt)

lemma ListMultipartUploads_loop_result:
  assumes "iter_pending list = xs" and "iter_err list = None" and "iter_failure list = None"
  shows "\<exists>limit' list' calls'.
       ListMultipartUploads_loop bucket maxUploads limit list uploads prefixes startAfter calls
         = Some (limit', list',
                 uploads @ map (\<lambda>object. minioMultipartInfo bucket (Some object))
                   (filter is_upload (iterated maxUploads limit xs)),
                 prefixes @ map multipart_Object.Key
                   (filter multipart_Object.IsPrefix (iterated maxUploads limit xs)),
                 last (startAfter # map multipart_Object.Key
                   (filter is_upload (iterated maxUploads limit xs))),
                 calls')
     \<and> iter_err list' = None \<and> iter_failure list' = None
     \<and> iter_pending list' = drop (length (iterated maxUploads limit xs)) xs"
  using assms
proof (induction xs arbitrary: list limit uploads prefixes startAfter calls)
  case Nil
  then show ?case
    by (subst ListMultipartUploads_loop.simps) (simp add: Next_def iterated_Nil)
next
  case (Cons x xs)
  show ?case
  proof (cases "0 <s limit \<or> maxUploads = 0")
    case False
    then show ?thesis
      by (subst ListMultipartUploads_loop.simps) (simp add: Cons.prems iterated_stop)
  next
    case True
    let ?list = "list\<lparr>iter_pending := xs, iter_item := Some x\<rparr>"
    have n: "Next list = (True, ?list)"
      using Cons.prems by (simp add: Next_def)
    have p: "iter_pending ?list = xs" "iter_err ?list = None" "iter_failure ?list = None"
      using Cons.prems by simp_all
    note t = iterated_Cons [OF True, of x xs]
    show ?thesis
    proof (cases "multipart_Object.IsPrefix x")
      case True
      from Cons.IH [OF p, of "limit - 1" uploads "prefixes @ [multipart_Object.Key x]"
          startAfter "calls @ [Next_call]"]
      obtain limit' list' calls' where
        r: "ListMultipartUploads_loop bucket maxUploads (limit - 1) ?list uploads
              (prefixes @ [multipart_Object.Key x]) startAfter (calls @ [Next_call])
            = Some (limit', list',
                 uploads @ map (\<lambda>object. minioMultipartInfo bucket (Some object))
                   (filter is_upload (iterated maxUploads (limit - 1) xs)),
                 (prefixes @ [multipart_Object.Key x]) @ map multipart_Object.Key
                   (filter multipart_Object.IsPrefix (iterated maxUploads (limit - 1) xs)),
                 last (startAfter # map multipart_Object.Key
                   (filter is_upload (iterated maxUploads (limit - 1) xs))),
                 calls')"
        and q: "iter_err list' = None" "iter_failure list' = None"
          "iter_pending list' = drop (length (iterated maxUploads (limit - 1) xs)) xs"
        by blast
      have "ListMultipartUploads_loop bucket maxUploads limit list uploads prefixes startAfter calls
          = ListMultipartUploads_loop bucket maxUploads (limit - 1) ?list uploads
              (prefixes @ [multipart_Object.Key x]) startAfter (calls @ [Next_call])"
        using True \<open>0 <s limit \<or> maxUploads = 0\<close>
        by (subst ListMultipartUploads_loop.simps) (simp add: n Item_def)
      moreover from True have "\<not> is_upload x"
        by (simp add: is_upload_def)
      ultimately show ?thesis
        using r q True by (simp add: t)
    next
      case False
      from Cons.IH [OF p, of "limit - 1" "uploads @ [minioMultipartInfo bucket (Some x)]" prefixes
          "multipart_Object.Key x" "calls @ [Next_call]"]
      obtain limit' list' calls' where
        r: "ListMultipartUploads_loop bucket maxUploads (limit - 1) ?list
              (uploads @ [minioMultipartInfo bucket (Some x)]) prefixes
              (multipart_Object.Key x) (calls @ [Next_call])
            = Some (limit', list',
                 (uploads @ [minioMultipartInfo bucket (Some x)])
                   @ map (\<lambda>object. minioMultipartInfo bucket (Some object))
                   (filter is_upload (iterated maxUploads (limit - 1) xs)),
                 prefixes @ map multipart_Object.Key
                   (filter multipart_Object.IsPrefix (iterated maxUploads (limit - 1) xs)),
                 last (multipart_Object.Key x # map multipart_Object.Key
                   (filter is_upload (iterated maxUploads (limit - 1) xs))),
                 calls')"
        and q: "iter_err list' = None" "iter_failure list' = None"
          "iter_pending list' = drop (length (iterated maxUploads (limit - 1) xs)) xs"
        by blast
      have "ListMultipartUploads_loop bucket maxUploads limit list uploads prefixes startAfter calls
          = ListMultipartUploads_loop bucket maxUploads (limit - 1) ?list
              (uploads @ [minioMultipartInfo bucket (Some x)]) prefixes
              (multipart_Object.Key x) (calls @ [Next_call])"
        using False \<open>0 <s limit \<or> maxUploads = 0\<close>
        by (subst ListMultipartUploads_loop.simps) (simp add: n Item_def)
      moreover from False have "is_upload x"
        by (simp add: is_upload_def)
      ultimately show ?thesis
        using r q False by (simp add: t)
    qed
  qed
qed

text \<open>With valid arguments and an open project, \<open>ListMultipartUploads\<close> returns what the
  page on the chosen iterator returns, after \<open>checkBucketError\<close> and the closing of the
  project.\<close>

lemma ListMultipartUploads_calls_page:
  assumes "openProjectMultipart layer = None" and "bucket \<noteq> []"
    and "delimiter = [] \<or> delimiter = ''/''"
    and "ListMultipartUploads_page layer bucket prefix keyMarker uploadIDMarker delimiter maxUploads
           (fst (ListMultipartUploads_list layer bucket prefix keyMarker delimiter))
         = Some (result, e, list', calls)"
  shows "ListMultipartUploads layer bucket prefix keyMarker uploadIDMarker delimiter maxUploads
         = Some (result,
                 errs_Combine (checkBucketError layer bucket [] e) (project_Close layer),
                 snd (ListMultipartUploads_list layer bucket prefix keyMarker delimiter)
                   # calls @ [checkBucketError_call bucket [] e])"
  using assms by (auto simp: ListMultipartUploads_def split: prod.splits)

text \<open>
  C5, as stated, lets an item tagged as a prefix consume no quota of \<open>maxUploads\<close>.  In the
  code every item decrements \<open>limit\<close>: with \<open>maxUploads = 1\<close> and the items \<open>a/\<close> (a
  prefix), \<open>b\<close>, \<open>c\<close> the loop stops after the prefix and returns no upload, while the
  loop in which prefixes are free goes on to the upload \<open>b\<close>.
\<close>

theorem ListMultipartUploads_loop_quota_counterexample:
  "ListMultipartUploads_loop ''bk'' 1 1 sample_uploads [] [] [] []
     = Some (0, sample_uploads\<lparr>iter_pending := drop 1 (iter_pending sample_uploads),
                              iter_item := Some (iter_pending sample_uploads ! 0)\<rparr>,
             [], [''a/''], [], [Next_call])
   \<and> spec_ListMultipartUploads_loop ''bk'' 1 1 sample_uploads [] [] [] []
     = Some (0, sample_uploads\<lparr>iter_pending := drop 2 (iter_pending sample_uploads),
                              iter_item := Some (iter_pending sample_uploads ! 1)\<rparr>,
             [minioMultipartInfo ''bk'' (Some (iter_pending sample_uploads ! 1))],
             [''a/''], ''b'', [Next_call, Next_call])
   \<and> ListMultipartUploads_loop ''bk'' 1 1 sample_uploads [] [] [] []
     \<noteq> spec_ListMultipartUploads_loop ''bk'' 1 1 sample_uploads [] [] [] []"
proof -
  have a: "ListMultipartUploads_loop ''bk'' 1 1 sample_uploads [] [] [] []
     = Some (0, sample_uploads\<lparr>iter_pending := drop 1 (iter_pending sample_uploads),
                              iter_item := Some (iter_pending sample_uploads ! 0)\<rparr>,
             [], [''a/''], [], [Next_call])"
    by (simp add: ListMultipartUploads_loop.simps sample_uploads_def Next_def Item_def
          word_sless_alt)
  have b: "spec_ListMultipartUploads_loop ''bk'' 1 1 sample_uploads [] [] [] []
     = Some (0, sample_uploads\<lparr>iter_pending := drop 2 (iter_pending sample_uploads),
                              iter_item := Some (iter_pending sample_uploads ! 1)\<rparr>,
             [minioMultipartInfo ''bk'' (Some (iter_pending sample_uploads ! 1))],
             [''a/''], ''b'', [Next_call, Next_call])"
    by (simp add: spec_ListMultipartUploads_loop.simps sample_uploads_def Next_def Item_def
          word_sless_alt)
  from a b show ?thesis by simp
qed

text \<open>
  C5, amended: on an iterator that reports no error, the listing iterates over the first
  \<open>maxUploads\<close> items (over all items when \<open>maxUploads\<close> is zero, over none when it is
  negative), and every item, prefix or upload, counts towards that limit; of these items
  the prefixes are appended, in order, to the common prefixes and the uploads to the
  uploads, the key of the last upload being the candidate for the next key marker (the key
  marker of the request when there is none); then exactly one further item is taken from
  the iterator, if there is one, which sets the truncation flag and is in neither list; the
  next key marker is the candidate when the listing is truncated.
\<close>

theorem ListMultipartUploads_page_result:
  assumes "iter_err list = None" and "iter_failure list = None"
  shows "\<exists>result list' calls.
       ListMultipartUploads_page layer bucket prefix keyMarker uploadIDMarker delimiter maxUploads list
         = Some (result, None, list', calls)
     \<and> Uploads result
         = map (\<lambda>object. minioMultipartInfo bucket (Some object))
             (filter is_upload (iterated maxUploads maxUploads (iter_pending list)))
     \<and> CommonPrefixes result
         = map multipart_Object.Key
             (filter multipart_Object.IsPrefix (iterated maxUploads maxUploads (iter_pending list)))
     \<and> ListMultipartsInfo.IsTruncated result
         = (length (iterated maxUploads maxUploads (iter_pending list)) < length (iter_pending list))
     \<and> NextKeyMarker result
         = (if length (iterated maxUploads maxUploads (iter_pending list)) < length (iter_pending list)
            then last (keyMarker # map multipart_Object.Key
                   (filter is_upload (iterated maxUploads maxUploads (iter_pending list))))
            else [])
     \<and> iter_pending list'
         = drop (Suc (length (iterated maxUploads maxUploads (iter_pending list)))) (iter_pending list)
     \<and> (maxUploads \<noteq> 0 \<longrightarrow>
          int (length (iterated maxUploads maxUploads (iter_pending list))) \<le> max 0 (sint maxUploads))
     \<and> (maxUploads = 0 \<longrightarrow> iterated maxUploads maxUploads (iter_pending list) = iter_pending list)"
proof -
  let ?it = "iterated maxUploads maxUploads (iter_pending list)"
  from ListMultipartUploads_loop_result [OF refl assms, of bucket maxUploads maxUploads "[]" "[]"
      keyMarker "[]"]
  obtain limit' list1 calls1 where
    r: "ListMultipartUploads_loop bucket maxUploads maxUploads list [] [] keyMarker []
          = Some (limit', list1,
                  map (\<lambda>object. minioMultipartInfo bucket (Some object)) (filter is_upload ?it),
                  map multipart_Object.Key (filter multipart_Object.IsPrefix ?it),
                  last (keyMarker # map multipart_Object.Key (filter is_upload ?it)),
                  calls1)"
    and q: "iter_err list1 = None" "iter_failure list1 = None"
      "iter_pending list1 = drop (length ?it) (iter_pending list)"
    by auto
  have b: "(maxUploads \<noteq> 0 \<longrightarrow> int (length ?it) \<le> max 0 (sint maxUploads))
     \<and> (maxUploads = 0 \<longrightarrow> ?it = iter_pending list)"
    by (auto simp: iterated_def)
  show ?thesis
  proof (cases "drop (length ?it) (iter_pending list)")
    case Nil
    then have n: "Next list1 = (False, list1\<lparr>iter_item := None, iter_err := None\<rparr>)"
      using q by (simp add: Next_def)
    from Nil have "\<not> length ?it < length (iter_pending list)"
      by simp
    moreover from Nil have "drop (Suc (length ?it)) (iter_pending list) = []"
      by simp
    ultimately show ?thesis
      using r q n b unfolding ListMultipartUploads_page_def
      by (simp add: Err_def Let_def)
  next
    case (Cons y ys)
    then have n: "Next list1 = (True, list1\<lparr>iter_pending := ys, iter_item := Some y\<rparr>)"
      using q by (simp add: Next_def)
    from Cons have "length ?it < length (iter_pending list)"
      by (metis drop_eq_Nil list.distinct(1) not_le)
    moreover from Cons have "drop (Suc (length ?it)) (iter_pending list) = ys"
      by (metis drop_Suc tl_drop list.sel(3))
    ultimately show ?thesis
      using r q n b unfolding ListMultipartUploads_page_def
      by (simp add: Err_def Let_def)
  qed
qed

theorem ListMultipartUploads_page_result_witness:
  "iter_err sample_uploads = None \<and> iter_failure sample_uploads = None
   \<and> (\<exists>result list' calls.
        ListMultipartUploads_page sample_layer ''bk'' [] [] [] [] 2 sample_uploads
          = Some (result, None, list', calls)
      \<and> map MultipartInfo.Object (Uploads result) = [''b'']
      \<and> CommonPrefixes result = [''a/'']
      \<and> ListMultipartsInfo.IsTruncated result
      \<and> NextKeyMarker result = ''b''
      \<and> iter_pending list' = [])
   \<and> (\<exists>result list' calls.
        ListMultipartUploads_page sample_layer ''bk'' [] [] [] [] 0 sample_uploads
          = Some (result, None, list', calls)
      \<and> map MultipartInfo.Object (Uploads result) = [''b'', ''c'']
      \<and> CommonPrefixes result = [''a/'']
      \<and> \<not> ListMultipartsInfo.IsTruncated result
      \<and> NextKeyMarker result = []
      \<and> iter_pending list' = [])"
proof -
  have h: "iter_err sample_uploads = None" "iter_failure sample_uploads = None"
    by (simp_all add: sample_uploads_def)
  have i: "\<And>xs. iterated 2 2 xs = take 2 xs" "\<And>xs. iterated 0 0 xs = xs"
    by (simp_all add: iterated_def)
  from ListMultipartUploads_page_result [OF h, of sample_layer "''bk''" "[]" "[]" "[]" "[]" 2]
  obtain result list' calls where
    "ListMultipartUploads_page sample_layer ''bk'' [] [] [] [] 2 sample_uploads
          = Some (result, None, list', calls)"
    and "Uploads result
         = map (\<lambda>object. minioMultipartInfo ''bk'' (Some object))
             (filter is_upload (iterated 2 2 (iter_pending sample_uploads)))"
    and "CommonPrefixes result
         = map multipart_Object.Key
             (filter multipart_Object.IsPrefix (iterated 2 2 (iter_pending sample_uploads)))"
    and "ListMultipartsInfo.IsTruncated result
         = (length (iterated 2 2 (iter_pending sample_uploads)) < length (iter_pending sample_uploads))"
    and "NextKeyMarker result
         = (if length (iterated 2 2 (iter_pending sample_uploads)) < length (iter_pending sample_uploads)
            then last ([] # map multipart_Object.Key
                   (filter is_upload (iterated 2 2 (iter_pending sample_uploads))))
            else [])"
    and "iter_pending list'
         = drop (Suc (length (iterated 2 2 (iter_pending sample_uploads)))) (iter_pending sample_uploads)"
    by blast
  then have "ListMultipartUploads_page sample_layer ''bk'' [] [] [] [] 2 sample_uploads
          = Some (result, None, list', calls)
      \<and> map MultipartInfo.Object (Uploads result) = [''b'']
      \<and> CommonPrefixes result = [''a/'']
      \<and> ListMultipartsInfo.IsTruncated result
      \<and> NextKeyMarker result = ''b''
      \<and> iter_pending list' = []"
    by (simp add: i sample_uploads_def is_upload_def minioMultipartInfo_def)
  then have two: "\<exists>result list' calls.
        ListMultipartUploads_page sample_layer ''bk'' [] [] [] [] 2 sample_uploads
          = Some (result, None, list', calls)
      \<and> map MultipartInfo.Object (Uploads result) = [''b'']
      \<and> CommonPrefixes result = [''a/'']
      \<and> ListMultipartsInfo.IsTruncated result
      \<and> NextKeyMarker result = ''b''
      \<and> iter_pending list' = []"
    by (intro exI)
  from ListMultipartUploads_page_result [OF h, of sample_layer "''bk''" "[]" "[]" "[]" "[]" 0]
  obtain result list' calls where
    "ListMultipartUploads_page sample_layer ''bk'' [] [] [] [] 0 sample_uploads
          = Some (result, None, list', calls)"
    and "Uploads result
         = map (\<lambda>object. minioMultipartInfo ''bk'' (Some object))
             (filter is_upload (iterated 0 0 (iter_pending sample_uploads)))"
    and "CommonPrefixes result
         = map multipart_Object.Key
             (filter multipart_Object.IsPrefix (iterated 0 0 (iter_pending sample_uploads)))"
    and "ListMultipartsInfo.IsTruncated result
         = (length (iterated 0 0 (iter_pending sample_uploads)) < length (iter_pending sample_uploads))"
    and "NextKeyMarker result
         = (if length (iterated 0 0 (iter_pending sample_uploads)) < length (iter_pending sample_uploads)
            then last ([] # map multipart_Object.Key
                   (filter is_upload (iterated 0 0 (iter_pending sample_uploads))))
            else [])"
    and "iter_pending list'
         = drop (Suc (length (iterated 0 0 (iter_pending sample_uploads)))) (iter_pending sample_uploads)"
    by blast
  then have "ListMultipartUploads_page sample_layer ''bk'' [] [] [] [] 0 sample_uploads
          = Some (result, None, list', calls)
      \<and> map MultipartInfo.Object (Uploads result) = [''b'', ''c'']
      \<and> CommonPrefixes result = [''a/'']
      \<and> \<not> ListMultipartsInfo.IsTruncated result
      \<and> NextKeyMarker result = []
      \<and> iter_pending list' = []"
    by (simp add: i sample_uploads_def is_upload_def minioMultipartInfo_def)
  then have all: "\<exists>result list' calls.
        ListMultipartUploads_page sample_layer ''bk'' [] [] [] [] 0 sample_uploads
          = Some (result, None, list', calls)
      \<and> map MultipartInfo.Object (Uploads result) = [''b'', ''c'']
      \<and> CommonPrefixes result = [''a/'']
      \<and> \<not> ListMultipartsInfo.IsTruncated result
      \<and> NextKeyMarker result = []
      \<and> iter_pending list' = []"
    by (intro exI)
  from h two all show ?thesis
    by (intro conjI)
qed

end
